theory Spec2Isabelle
  imports Complex_Main "HOL-Library.Char_ord" "HOL-Library.List_Lexorder"
begin

section \<open>Values of the Go program\<close>

subsection \<open>float64\<close>

text \<open>
  A \<^verbatim>\<open>float64\<close> is a finite value, an infinity or NaN. Every finite float64 is a
  rational number and the comparison of finite values is the comparison of these rationals,
  so the finite values are carried as \<^typ>\<open>rat\<close> (the model does not say which rationals
  are representable; negative zero is identified with zero, which compares equal to it).
  \<open>f64_less\<close> is Go's \<^verbatim>\<open><\<close> on float64: every comparison with NaN is false.
\<close>

datatype float64 = Finite rat | PosInf | NegInf | NaN

fun f64_less :: "float64 \<Rightarrow> float64 \<Rightarrow> bool" where
  "f64_less (Finite a) (Finite b) = (a < b)"
| "f64_less (Finite a) PosInf = True"
| "f64_less NegInf (Finite b) = True"
| "f64_less NegInf PosInf = True"
| "f64_less _ _ = False"


section \<open>Package models\<close>

subsection \<open>Validation errors\<close>

text \<open>
  One constructor for every error the Validate methods build. \<open>ErrorFormat\<close> gives the
  format string the source passes to \<^verbatim>\<open>errors.New\<close> or \<^verbatim>\<open>fmt.Errorf\<close>; the
  argument of a \<^verbatim>\<open>%f\<close> or \<^verbatim>\<open>%s\<close> verb is the constructor's argument.
\<close>

datatype ValidationError
  = ErrStreetAddressRequired
  | ErrCityRequired
  | ErrPostalCodeRequired
  | ErrCountryRequired
  | ErrCountryLength
  | ErrAccountIdRequired
  | ErrInvalidLocationType string string
  | ErrLatitudeRange float64
  | ErrLongitudeRange float64
  | ErrAccuracyNegative float64
  | ErrNameRequired
  | ErrContactIdRequired

fun ErrorFormat :: "ValidationError \<Rightarrow> string" where
  "ErrorFormat ErrStreetAddressRequired = ''streetAddress is required''"
| "ErrorFormat ErrCityRequired = ''city is required''"
| "ErrorFormat ErrPostalCodeRequired = ''postalCode is required''"
| "ErrorFormat ErrCountryRequired = ''country is required''"
| "ErrorFormat ErrCountryLength = ''country must be a 2-character ISO 3166-1 alpha-2 code''"
| "ErrorFormat ErrAccountIdRequired = ''accountId is required''"
| "ErrorFormat (ErrInvalidLocationType variant t) = ''invalid locationType for '' @ variant @ '': %s''"
| "ErrorFormat (ErrLatitudeRange x) = ''latitude must be between -90 and 90, got %f''"
| "ErrorFormat (ErrLongitudeRange x) = ''longitude must be between -180 and 180, got %f''"
| "ErrorFormat (ErrAccuracyNegative x) = ''accuracy must be non-negative, got %f''"
| "ErrorFormat ErrNameRequired = ''name is required''"
| "ErrorFormat ErrContactIdRequired = ''contactId is required''"

subsection \<open>Coordinates\<close>

record Coordinates =
  Latitude :: float64
  Longitude :: float64
  Altitude :: "float64 option"
  Accuracy :: "float64 option"

definition Coordinates_Validate :: "Coordinates \<Rightarrow> ValidationError option" where
  "Coordinates_Validate c =
    (if f64_less (Latitude c) (Finite (- 90)) \<or> f64_less (Finite 90) (Latitude c)
       then Some (ErrLatitudeRange (Latitude c))
     else if f64_less (Longitude c) (Finite (- 180)) \<or> f64_less (Finite 180) (Longitude c)
       then Some (ErrLongitudeRange (Longitude c))
     else (case Accuracy c of
             Some a \<Rightarrow> if f64_less a (Finite 0) then Some (ErrAccuracyNegative a) else None
           | None \<Rightarrow> None))"

subsection \<open>Address and Shop\<close>

record Address =
  StreetAddress :: string
  StreetAddress2 :: string
  City :: string
  StateProvince :: string
  PostalCode :: string
  Country :: string

definition Address_Validate :: "Address \<Rightarrow> ValidationError option" where
  "Address_Validate a =
    (if StreetAddress a = [] then Some ErrStreetAddressRequired
     else if City a = [] then Some ErrCityRequired
     else if PostalCode a = [] then Some ErrPostalCodeRequired
     else if Country a = [] then Some ErrCountryRequired
     else if length (Country a) \<noteq> 2 then Some ErrCountryLength
     else None)"

record Shop =
  Name :: string
  ContactID :: string
  ShopAddress :: Address

definition Shop_Validate :: "Shop \<Rightarrow> ValidationError option" where
  "Shop_Validate s =
    (if Name s = [] then Some ErrNameRequired
     else if ContactID s = [] then Some ErrContactIdRequired
     else (case Address_Validate (ShopAddress s) of Some err \<Rightarrow> Some err | None \<Rightarrow> None))"

subsection \<open>Dynamic values\<close>

text \<open>
  \<^verbatim>\<open>interface{}\<close> values as they occur under \<^verbatim>\<open>extendedAttributes\<close>: the Go
  values encoding/json produces for a JSON document (nil, bool, float64, string,
  \<^verbatim>\<open>[]interface{}\<close>, \<^verbatim>\<open>map[string]interface{}\<close>). A Go map has no order and no
  repeated key; it is represented by the association list of its entries in ascending
  order of the keys (bytewise, the order of \<^verbatim>\<open>sort.Strings\<close>), so that equal maps are
  equal lists. A nil map and an empty map are both \<open>[]\<close>: the program reads a map only
  through its length and its entries.
\<close>

datatype gvalue
  = GNil
  | GBool bool
  | GFloat float64
  | GString string
  | GSlice "gvalue list"
  | GMap "(string \<times> gvalue) list"

type_synonym gmap = "(string \<times> gvalue) list"

text \<open>\<^verbatim>\<open>m[k] = v\<close> on the ordered representation, and the lookup \<^verbatim>\<open>m[k]\<close>.\<close>

fun map_set :: "string \<Rightarrow> 'v \<Rightarrow> (string \<times> 'v) list \<Rightarrow> (string \<times> 'v) list" where
  "map_set k v [] = [(k, v)]"
| "map_set k v ((k', v') # m) =
    (if k = k' then (k, v) # m
     else if k < k' then (k, v) # (k', v') # m
     else (k', v') # map_set k v m)"

fun map_get :: "(string \<times> 'v) list \<Rightarrow> string \<Rightarrow> 'v option" where
  "map_get [] k = None"
| "map_get ((k', v') # m) k = (if k = k' then Some v' else map_get m k)"

text \<open>The representation invariant: keys strictly ascending, at every level.\<close>

definition ascending :: "string list \<Rightarrow> bool" where
  "ascending ks = sorted_wrt (<) ks"

fun wf_gvalue :: "gvalue \<Rightarrow> bool" where
  "wf_gvalue (GSlice xs) = list_all wf_gvalue xs"
| "wf_gvalue (GMap m) = (ascending (map fst m) \<and> list_all (\<lambda>kv. wf_gvalue (snd kv)) m)"
| "wf_gvalue _ = True"

definition wf_gmap :: "gmap \<Rightarrow> bool" where
  "wf_gmap m = wf_gvalue (GMap m)"

subsection \<open>The location variants\<close>

text \<open>
  \<^verbatim>\<open>LocationType\<close> is a string type; its three constants are the tags.
  The structs embed \<^verbatim>\<open>LocationBase\<close>; the embedded struct is the first field of each record.
  The interface \<^verbatim>\<open>Location\<close> has the three structs as its implementations: a value of
  the interface is one of them, tagged by its dynamic type.
\<close>

definition LocationTypeAddress :: string where "LocationTypeAddress = ''address''"
definition LocationTypeCoordinates :: string where "LocationTypeCoordinates = ''coordinates''"
definition LocationTypeShop :: string where "LocationTypeShop = ''shop''"

record LocationBase =
  AccountID :: string
  LocationType :: string
  ExtendedAttributes :: gmap

record AddressLocation =
  AddressBase :: LocationBase
  AddressOf :: Address

record CoordinatesLocation =
  CoordinatesBase :: LocationBase
  CoordinatesOf :: Coordinates

record ShopLocation =
  ShopBase :: LocationBase
  ShopOf :: Shop

datatype Location
  = IsAddressLocation AddressLocation
  | IsCoordinatesLocation CoordinatesLocation
  | IsShopLocation ShopLocation

fun GetBase :: "Location \<Rightarrow> LocationBase" where
  "GetBase (IsAddressLocation l) = AddressBase l"
| "GetBase (IsCoordinatesLocation l) = CoordinatesBase l"
| "GetBase (IsShopLocation l) = ShopBase l"

definition GetAccountID :: "Location \<Rightarrow> string" where
  "GetAccountID l = AccountID (GetBase l)"

definition GetLocationType :: "Location \<Rightarrow> string" where
  "GetLocationType l = LocationType (GetBase l)"

definition GetExtendedAttributes :: "Location \<Rightarrow> gmap" where
  "GetExtendedAttributes l = ExtendedAttributes (GetBase l)"

definition AddressLocation_Validate :: "AddressLocation \<Rightarrow> ValidationError option" where
  "AddressLocation_Validate l =
    (if AccountID (AddressBase l) = [] then Some ErrAccountIdRequired
     else if LocationType (AddressBase l) \<noteq> LocationTypeAddress
       then Some (ErrInvalidLocationType ''AddressLocation'' (LocationType (AddressBase l)))
     else Address_Validate (AddressOf l))"

definition CoordinatesLocation_Validate :: "CoordinatesLocation \<Rightarrow> ValidationError option" where
  "CoordinatesLocation_Validate l =
    (if AccountID (CoordinatesBase l) = [] then Some ErrAccountIdRequired
     else if LocationType (CoordinatesBase l) \<noteq> LocationTypeCoordinates
       then Some (ErrInvalidLocationType ''CoordinatesLocation'' (LocationType (CoordinatesBase l)))
     else Coordinates_Validate (CoordinatesOf l))"

definition ShopLocation_Validate :: "ShopLocation \<Rightarrow> ValidationError option" where
  "ShopLocation_Validate l =
    (if AccountID (ShopBase l) = [] then Some ErrAccountIdRequired
     else if LocationType (ShopBase l) \<noteq> LocationTypeShop
       then Some (ErrInvalidLocationType ''ShopLocation'' (LocationType (ShopBase l)))
     else Shop_Validate (ShopOf l))"

fun Validate :: "Location \<Rightarrow> ValidationError option" where
  "Validate (IsAddressLocation l) = AddressLocation_Validate l"
| "Validate (IsCoordinatesLocation l) = CoordinatesLocation_Validate l"
| "Validate (IsShopLocation l) = ShopLocation_Validate l"

section \<open>encoding/json, as the program uses it\<close>

subsection \<open>Documents\<close>

text \<open>
  The program hands byte strings to \<^verbatim>\<open>json.Unmarshal\<close> and takes them from
  \<^verbatim>\<open>json.Marshal\<close>; it never looks at a byte itself. The grammar of JSON text (white
  space, escapes, number literals) is the library's, so a byte string is represented by
  what the library's scanner makes of it: a syntax error, or the document it spells. A
  document keeps the members of an object in the order of the text, repeated keys included,
  since the decoder treats them one after the other. A number is the float64 that
  \<^verbatim>\<open>strconv.ParseFloat\<close> reads from the literal (always finite), or \<open>JNumRange\<close> when
  the literal is out of the range of float64.
\<close>

datatype json
  = JNull
  | JBool bool
  | JNum rat
  | JNumRange
  | JStr string
  | JArr "json list"
  | JObj "(string \<times> json) list"

datatype json_text = Malformed string | Text json

text \<open>The errors of \<^verbatim>\<open>json.Unmarshal\<close> (\<open>UnmarshalTypeError\<close> with its \<open>Value\<close> and
  \<open>Type\<close>) and of \<^verbatim>\<open>json.Marshal\<close>.\<close>

datatype UnmarshalError = SyntaxError string | UnmarshalTypeError string string


datatype MarshalError = UnsupportedValueError float64

fun json_kind :: "json \<Rightarrow> string" where
  "json_kind JNull = ''null''"
| "json_kind (JBool b) = ''bool''"
| "json_kind (JNum r) = ''number''"
| "json_kind JNumRange = ''number''"
| "json_kind (JStr s) = ''string''"
| "json_kind (JArr xs) = ''array''"
| "json_kind (JObj kvs) = ''object''"

subsection \<open>Matching a key with a struct field\<close>

text \<open>
  The decoder takes the field whose name is the key, and failing that the field whose
  name equals the key under Unicode simple case folding (\<open>foldName\<close> in the library). The
  field names of this program are ASCII letters and digits; the runes that fold to an ASCII
  letter are the ASCII letters, U+212A (KELVIN SIGN, bytes E2 84 AA, folds with K) and
  U+017F (LATIN SMALL LETTER LONG S, bytes C5 BF, folds with S). Every other rune of a key
  folds to a rune outside ASCII and its bytes are left as they are here: such a key
  matches no field either way.
\<close>

definition upper :: "char \<Rightarrow> char" where
  "upper c = (if CHR ''a'' \<le> c \<and> c \<le> CHR ''z'' then char_of (of_char c - (32::nat)) else c)"

fun foldName :: "string \<Rightarrow> string" where
  "foldName [] = []"
| "foldName [a] = [upper a]"
| "foldName [a, b] =
    (if a = CHR 0xC5 \<and> b = CHR 0xBF then [CHR ''S''] else [upper a, upper b])"
| "foldName (a # b # c # cs) =
    (if a = CHR 0xE2 \<and> b = CHR 0x84 \<and> c = CHR 0xAA then CHR ''K'' # foldName cs
     else if a = CHR 0xC5 \<and> b = CHR 0xBF then CHR ''S'' # foldName (c # cs)
     else upper a # foldName (b # c # cs))"

definition names :: "string \<Rightarrow> string \<Rightarrow> bool" where
  "names key field = (key = field \<or> foldName key = foldName field)"

subsection \<open>Decoding into Go values\<close>

text \<open>
  A decoder takes the document and the value the destination holds, and gives the value
  it holds afterwards. \<^verbatim>\<open>null\<close> leaves a string, a number and a struct as they are and
  sets a pointer and a map to nil. On a value of the wrong kind the library records an
  \<open>UnmarshalTypeError\<close>, goes on, and returns the first error it recorded; the program
  drops the destination whenever an error is returned, so the model stops at the first one.
\<close>

definition okmap :: "'e + 'b \<Rightarrow> ('b \<Rightarrow> 'a) \<Rightarrow> 'e + 'a" where
  "okmap r f = (case r of Inl e \<Rightarrow> Inl e | Inr x \<Rightarrow> Inr (f x))"

definition decode_string :: "string \<Rightarrow> json \<Rightarrow> string \<Rightarrow> UnmarshalError + string" where
  "decode_string ty v cur =
    (case v of JStr s \<Rightarrow> Inr s | JNull \<Rightarrow> Inr cur
     | _ \<Rightarrow> Inl (UnmarshalTypeError (json_kind v) ty))"

definition decode_float64 :: "json \<Rightarrow> float64 \<Rightarrow> UnmarshalError + float64" where
  "decode_float64 v cur =
    (case v of JNum r \<Rightarrow> Inr (Finite r) | JNull \<Rightarrow> Inr cur
     | _ \<Rightarrow> Inl (UnmarshalTypeError (json_kind v) ''float64''))"

definition decode_float64_ptr :: "json \<Rightarrow> float64 option \<Rightarrow> UnmarshalError + float64 option" where
  "decode_float64_ptr v cur =
    (case v of JNull \<Rightarrow> Inr None
     | _ \<Rightarrow> okmap (decode_float64 v (case cur of Some x \<Rightarrow> x | None \<Rightarrow> Finite 0)) Some)"

text \<open>Into \<^verbatim>\<open>interface{}\<close>: a fresh value; a repeated key of an object overwrites.\<close>

fun decode_interface :: "json \<Rightarrow> UnmarshalError + gvalue"
  and decode_array :: "json list \<Rightarrow> UnmarshalError + gvalue list"
  and decode_object :: "(string \<times> json) list \<Rightarrow> gmap \<Rightarrow> UnmarshalError + gmap" where
  "decode_interface JNull = Inr GNil"
| "decode_interface (JBool b) = Inr (GBool b)"
| "decode_interface (JNum r) = Inr (GFloat (Finite r))"
| "decode_interface JNumRange = Inl (UnmarshalTypeError ''number'' ''float64'')"
| "decode_interface (JStr s) = Inr (GString s)"
| "decode_interface (JArr xs) = okmap (decode_array xs) GSlice"
| "decode_interface (JObj kvs) = okmap (decode_object kvs []) GMap"
| "decode_array [] = Inr []"
| "decode_array (x # xs) =
    (case decode_interface x of Inl e \<Rightarrow> Inl e
     | Inr g \<Rightarrow> okmap (decode_array xs) (\<lambda>gs. g # gs))"
| "decode_object [] m = Inr m"
| "decode_object (kv # kvs) m =
    (case decode_interface (snd kv) of Inl e \<Rightarrow> Inl e
     | Inr g \<Rightarrow> decode_object kvs (map_set (fst kv) g m))"

definition decode_map :: "json \<Rightarrow> gmap \<Rightarrow> UnmarshalError + gmap" where
  "decode_map v cur =
    (case v of JNull \<Rightarrow> Inr [] | JObj kvs \<Rightarrow> decode_object kvs cur
     | _ \<Rightarrow> Inl (UnmarshalTypeError (json_kind v) ''map[string]interface {}''))"

text \<open>Into a struct: the members in order, each through the setter of the field its key
  names; a key that names no field is skipped.\<close>

fun decode_fields ::
  "(string \<Rightarrow> 'v \<Rightarrow> 'a \<Rightarrow> 'e + 'a) \<Rightarrow> (string \<times> 'v) list \<Rightarrow> 'a \<Rightarrow> 'e + 'a" where
  "decode_fields setf [] a = Inr a"
| "decode_fields setf (kv # kvs) a =
    (case setf (fst kv) (snd kv) a of Inl e \<Rightarrow> Inl e
     | Inr a' \<Rightarrow> decode_fields setf kvs a')"

definition decode_struct ::
  "string \<Rightarrow> (string \<Rightarrow> json \<Rightarrow> 'a \<Rightarrow> UnmarshalError + 'a) \<Rightarrow> json \<Rightarrow> 'a \<Rightarrow> UnmarshalError + 'a" where
  "decode_struct ty setf v a =
    (case v of JNull \<Rightarrow> Inr a | JObj kvs \<Rightarrow> decode_fields setf kvs a
     | _ \<Rightarrow> Inl (UnmarshalTypeError (json_kind v) ty))"

definition json_Unmarshal ::
  "(json \<Rightarrow> 'a \<Rightarrow> UnmarshalError + 'a) \<Rightarrow> json_text \<Rightarrow> 'a \<Rightarrow> UnmarshalError + 'a" where
  "json_Unmarshal dec data a =
    (case data of Malformed msg \<Rightarrow> Inl (SyntaxError msg) | Text doc \<Rightarrow> dec doc a)"

subsection \<open>Encoding Go values\<close>

text \<open>
  \<^verbatim>\<open>json.Marshal\<close> writes the fields of a struct in the order of their declaration, the
  fields of an embedded struct in its place, and leaves out a field tagged
  \<^verbatim>\<open>omitempty\<close> that is an empty string, a nil pointer or a map without entries. It
  writes the entries of a map in ascending order of the keys, which is the order of the
  representation. It fails on a float64 that is not finite, at the first one it meets.
\<close>

definition and_then :: "'e + 'a \<Rightarrow> ('a \<Rightarrow> 'e + 'b) \<Rightarrow> 'e + 'b" where
  "and_then r f = (case r of Inl e \<Rightarrow> Inl e | Inr x \<Rightarrow> f x)"

definition marshal_float64 :: "float64 \<Rightarrow> MarshalError + json" where
  "marshal_float64 x = (case x of Finite r \<Rightarrow> Inr (JNum r) | _ \<Rightarrow> Inl (UnsupportedValueError x))"

fun marshal_interface :: "gvalue \<Rightarrow> MarshalError + json"
  and marshal_slice :: "gvalue list \<Rightarrow> MarshalError + json list"
  and marshal_entries :: "(string \<times> gvalue) list \<Rightarrow> MarshalError + (string \<times> json) list" where
  "marshal_interface GNil = Inr JNull"
| "marshal_interface (GBool b) = Inr (JBool b)"
| "marshal_interface (GFloat x) = marshal_float64 x"
| "marshal_interface (GString s) = Inr (JStr s)"
| "marshal_interface (GSlice xs) = okmap (marshal_slice xs) JArr"
| "marshal_interface (GMap m) = okmap (marshal_entries m) JObj"
| "marshal_slice [] = Inr []"
| "marshal_slice (x # xs) =
    (case marshal_interface x of Inl e \<Rightarrow> Inl e
     | Inr j \<Rightarrow> okmap (marshal_slice xs) (\<lambda>js. j # js))"
| "marshal_entries [] = Inr []"
| "marshal_entries (kv # kvs) =
    (case marshal_interface (snd kv) of Inl e \<Rightarrow> Inl e
     | Inr j \<Rightarrow> okmap (marshal_entries kvs) (\<lambda>js. (fst kv, j) # js))"

definition json_Marshal_interface :: "gvalue \<Rightarrow> MarshalError + json_text" where
  "json_Marshal_interface g = okmap (marshal_interface g) Text"

subsection \<open>The structs of package models under encoding/json\<close>

definition zero_Address :: Address where
  "zero_Address = \<lparr>StreetAddress = [], StreetAddress2 = [], City = [], StateProvince = [],
     PostalCode = [], Country = []\<rparr>"

definition zero_Coordinates :: Coordinates where
  "zero_Coordinates = \<lparr>Latitude = Finite 0, Longitude = Finite 0, Altitude = None, Accuracy = None\<rparr>"

definition zero_Shop :: Shop where
  "zero_Shop = \<lparr>Name = [], ContactID = [], ShopAddress = zero_Address\<rparr>"

definition zero_LocationBase :: LocationBase where
  "zero_LocationBase = \<lparr>AccountID = [], LocationType = [], ExtendedAttributes = []\<rparr>"

definition set_Address :: "string \<Rightarrow> json \<Rightarrow> Address \<Rightarrow> UnmarshalError + Address" where
  "set_Address k v a =
    (if names k ''streetAddress''
       then okmap (decode_string ''string'' v (StreetAddress a)) (\<lambda>s. a\<lparr>StreetAddress := s\<rparr>)
     else if names k ''streetAddress2''
       then okmap (decode_string ''string'' v (StreetAddress2 a)) (\<lambda>s. a\<lparr>StreetAddress2 := s\<rparr>)
     else if names k ''city''
       then okmap (decode_string ''string'' v (City a)) (\<lambda>s. a\<lparr>City := s\<rparr>)
     else if names k ''stateProvince''
       then okmap (decode_string ''string'' v (StateProvince a)) (\<lambda>s. a\<lparr>StateProvince := s\<rparr>)
     else if names k ''postalCode''
       then okmap (decode_string ''string'' v (PostalCode a)) (\<lambda>s. a\<lparr>PostalCode := s\<rparr>)
     else if names k ''country''
       then okmap (decode_string ''string'' v (Country a)) (\<lambda>s. a\<lparr>Country := s\<rparr>)
     else Inr a)"

definition decode_Address :: "json \<Rightarrow> Address \<Rightarrow> UnmarshalError + Address" where
  "decode_Address = decode_struct ''models.Address'' set_Address"


definition set_Coordinates :: "string \<Rightarrow> json \<Rightarrow> Coordinates \<Rightarrow> UnmarshalError + Coordinates" where
  "set_Coordinates k v c =
    (if names k ''latitude''
       then okmap (decode_float64 v (Latitude c)) (\<lambda>x. c\<lparr>Latitude := x\<rparr>)
     else if names k ''longitude''
       then okmap (decode_float64 v (Longitude c)) (\<lambda>x. c\<lparr>Longitude := x\<rparr>)
     else if names k ''altitude''
       then okmap (decode_float64_ptr v (Altitude c)) (\<lambda>x. c\<lparr>Altitude := x\<rparr>)
     else if names k ''accuracy''
       then okmap (decode_float64_ptr v (Accuracy c)) (\<lambda>x. c\<lparr>Accuracy := x\<rparr>)
     else Inr c)"

definition decode_Coordinates :: "json \<Rightarrow> Coordinates \<Rightarrow> UnmarshalError + Coordinates" where
  "decode_Coordinates = decode_struct ''models.Coordinates'' set_Coordinates"



definition set_Shop :: "string \<Rightarrow> json \<Rightarrow> Shop \<Rightarrow> UnmarshalError + Shop" where
  "set_Shop k v s =
    (if names k ''name''
       then okmap (decode_string ''string'' v (Name s)) (\<lambda>x. s\<lparr>Name := x\<rparr>)
     else if names k ''contactId''
       then okmap (decode_string ''string'' v (ContactID s)) (\<lambda>x. s\<lparr>ContactID := x\<rparr>)
     else if names k ''address''
       then okmap (decode_Address v (ShopAddress s)) (\<lambda>x. s\<lparr>ShopAddress := x\<rparr>)
     else Inr s)"

definition decode_Shop :: "json \<Rightarrow> Shop \<Rightarrow> UnmarshalError + Shop" where
  "decode_Shop = decode_struct ''models.Shop'' set_Shop"


text \<open>The fields of the embedded \<^verbatim>\<open>LocationBase\<close> are fields of the embedding struct.\<close>

definition base_key :: "string \<Rightarrow> bool" where
  "base_key k = (names k ''accountId'' \<or> names k ''locationType'' \<or> names k ''extendedAttributes'')"

definition set_LocationBase :: "string \<Rightarrow> json \<Rightarrow> LocationBase \<Rightarrow> UnmarshalError + LocationBase" where
  "set_LocationBase k v b =
    (if names k ''accountId''
       then okmap (decode_string ''string'' v (AccountID b)) (\<lambda>s. b\<lparr>AccountID := s\<rparr>)
     else if names k ''locationType''
       then okmap (decode_string ''models.LocationType'' v (LocationType b)) (\<lambda>s. b\<lparr>LocationType := s\<rparr>)
     else if names k ''extendedAttributes''
       then okmap (decode_map v (ExtendedAttributes b)) (\<lambda>m. b\<lparr>ExtendedAttributes := m\<rparr>)
     else Inr b)"

definition marshal_LocationBase :: "LocationBase \<Rightarrow> MarshalError + (string \<times> json) list" where
  "marshal_LocationBase b =
    and_then
      (if ExtendedAttributes b = [] then Inr []
       else okmap (marshal_entries (ExtendedAttributes b)) (\<lambda>js. [(''extendedAttributes'', JObj js)]))
      (\<lambda>ext. Inr ([(''accountId'', JStr (AccountID b)), (''locationType'', JStr (LocationType b))] @ ext))"

definition set_AddressLocation ::
  "string \<Rightarrow> json \<Rightarrow> AddressLocation \<Rightarrow> UnmarshalError + AddressLocation" where
  "set_AddressLocation k v l =
    (if base_key k then okmap (set_LocationBase k v (AddressBase l)) (\<lambda>b. l\<lparr>AddressBase := b\<rparr>)
     else if names k ''address'' then okmap (decode_Address v (AddressOf l)) (\<lambda>a. l\<lparr>AddressOf := a\<rparr>)
     else Inr l)"

definition set_CoordinatesLocation ::
  "string \<Rightarrow> json \<Rightarrow> CoordinatesLocation \<Rightarrow> UnmarshalError + CoordinatesLocation" where
  "set_CoordinatesLocation k v l =
    (if base_key k then okmap (set_LocationBase k v (CoordinatesBase l)) (\<lambda>b. l\<lparr>CoordinatesBase := b\<rparr>)
     else if names k ''coordinates''
       then okmap (decode_Coordinates v (CoordinatesOf l)) (\<lambda>c. l\<lparr>CoordinatesOf := c\<rparr>)
     else Inr l)"

definition set_ShopLocation ::
  "string \<Rightarrow> json \<Rightarrow> ShopLocation \<Rightarrow> UnmarshalError + ShopLocation" where
  "set_ShopLocation k v l =
    (if base_key k then okmap (set_LocationBase k v (ShopBase l)) (\<lambda>b. l\<lparr>ShopBase := b\<rparr>)
     else if names k ''shop'' then okmap (decode_Shop v (ShopOf l)) (\<lambda>s. l\<lparr>ShopOf := s\<rparr>)
     else Inr l)"

definition decode_AddressLocation :: "json \<Rightarrow> AddressLocation \<Rightarrow> UnmarshalError + AddressLocation" where
  "decode_AddressLocation = decode_struct ''models.AddressLocation'' set_AddressLocation"

definition decode_CoordinatesLocation ::
  "json \<Rightarrow> CoordinatesLocation \<Rightarrow> UnmarshalError + CoordinatesLocation" where
  "decode_CoordinatesLocation = decode_struct ''models.CoordinatesLocation'' set_CoordinatesLocation"

definition decode_ShopLocation :: "json \<Rightarrow> ShopLocation \<Rightarrow> UnmarshalError + ShopLocation" where
  "decode_ShopLocation = decode_struct ''models.ShopLocation'' set_ShopLocation"







subsection \<open>UnmarshalLocation\<close>

text \<open>
  The errors of \<^verbatim>\<open>UnmarshalLocation\<close>: the four that wrap the error of
  \<^verbatim>\<open>json.Unmarshal\<close> (\<^verbatim>\<open>"failed to unmarshal location type: %w"\<close>,
  \<^verbatim>\<open>"failed to unmarshal address location: %w"\<close>, and so on) and
  \<^verbatim>\<open>"unknown location type: %s"\<close>.
\<close>

datatype DecodeError
  = ErrUnmarshalLocationType UnmarshalError
  | ErrUnmarshalAddressLocation UnmarshalError
  | ErrUnmarshalCoordinatesLocation UnmarshalError
  | ErrUnmarshalShopLocation UnmarshalError
  | ErrUnknownLocationType string

text \<open>The anonymous struct \<^verbatim>\<open>base\<close> has the one field \<^verbatim>\<open>LocationType\<close>; it is
  carried as that field.\<close>

definition set_base :: "string \<Rightarrow> json \<Rightarrow> string \<Rightarrow> UnmarshalError + string" where
  "set_base k v t =
    (if names k ''locationType'' then decode_string ''models.LocationType'' v t else Inr t)"

definition decode_base :: "json \<Rightarrow> string \<Rightarrow> UnmarshalError + string" where
  "decode_base = decode_struct ''struct { LocationType models.LocationType }'' set_base"

definition UnmarshalLocation :: "json_text \<Rightarrow> DecodeError + Location" where
  "UnmarshalLocation data =
    (case json_Unmarshal decode_base data [] of
       Inl err \<Rightarrow> Inl (ErrUnmarshalLocationType err)
     | Inr t \<Rightarrow>
        if t = LocationTypeAddress then
          (case json_Unmarshal decode_AddressLocation data
                  \<lparr>AddressBase = zero_LocationBase, AddressOf = zero_Address\<rparr> of
             Inl err \<Rightarrow> Inl (ErrUnmarshalAddressLocation err)
           | Inr loc \<Rightarrow> Inr (IsAddressLocation loc))
        else if t = LocationTypeCoordinates then
          (case json_Unmarshal decode_CoordinatesLocation data
                  \<lparr>CoordinatesBase = zero_LocationBase, CoordinatesOf = zero_Coordinates\<rparr> of
             Inl err \<Rightarrow> Inl (ErrUnmarshalCoordinatesLocation err)
           | Inr loc \<Rightarrow> Inr (IsCoordinatesLocation loc))
        else if t = LocationTypeShop then
          (case json_Unmarshal decode_ShopLocation data
                  \<lparr>ShopBase = zero_LocationBase, ShopOf = zero_Shop\<rparr> of
             Inl err \<Rightarrow> Inl (ErrUnmarshalShopLocation err)
           | Inr loc \<Rightarrow> Inr (IsShopLocation loc))
        else Inl (ErrUnknownLocationType t))"

section \<open>Package repository\<close>

subsection \<open>Attribute values and items\<close>

text \<open>
  \<^verbatim>\<open>types.AttributeValue\<close> with the members the program writes: S, N, BOOL, NULL, L and
  M (binary values and the three set types are left out). The number of an N is the
  float64 it spells. An item is a \<^verbatim>\<open>map[string]types.AttributeValue\<close>, in the
  representation of Go maps; \<open>go_map\<close> builds one from its entries.
\<close>

datatype AttributeValue
  = AVS string
  | AVN float64
  | AVBOOL bool
  | AVNULL
  | AVL "AttributeValue list"
  | AVM "(string \<times> AttributeValue) list"

type_synonym item = "(string \<times> AttributeValue) list"

definition go_map :: "(string \<times> 'v) list \<Rightarrow> (string \<times> 'v) list" where
  "go_map kvs = fold (\<lambda>kv m. map_set (fst kv) (snd kv) m) kvs []"

subsection \<open>Records and cursors\<close>

record locationRecord =
  PK :: string
  SK :: string
  rec_AccountID :: string
  rec_LocationType :: string
  rec_ExtendedAttributes :: gmap
  rec_Address :: "Address option"
  rec_Coordinates :: "Coordinates option"

record paginationCursor =
  cur_PK :: string
  cur_SK :: string
  cur_AccountID :: string

text \<open>The errors of \<^verbatim>\<open>toLocationRecord\<close> (\<^verbatim>\<open>"unknown location type"\<close>) and of
  \<^verbatim>\<open>toLocation\<close> (\<^verbatim>\<open>"address is nil for address location type"\<close>,
  \<^verbatim>\<open>"coordinates is nil for coordinates location type"\<close>,
  \<^verbatim>\<open>"unknown location type: %s"\<close>).\<close>

datatype RecordError
  = ErrUnknownLocation
  | ErrAddressIsNil
  | ErrCoordinatesIsNil
  | ErrUnknownLocationTypeOf string

definition toLocationRecord :: "Location \<Rightarrow> string \<Rightarrow> RecordError + locationRecord" where
  "toLocationRecord location locationID =
    (let rec = \<lparr>PK = locationID, SK = GetAccountID location, rec_AccountID = GetAccountID location,
                rec_LocationType = GetLocationType location,
                rec_ExtendedAttributes = GetExtendedAttributes location,
                rec_Address = None, rec_Coordinates = None\<rparr>
     in case location of
          IsAddressLocation loc \<Rightarrow> Inr (rec\<lparr>rec_Address := Some (AddressOf loc)\<rparr>)
        | IsCoordinatesLocation loc \<Rightarrow> Inr (rec\<lparr>rec_Coordinates := Some (CoordinatesOf loc)\<rparr>)
        | _ \<Rightarrow> Inl ErrUnknownLocation)"

definition toLocation :: "locationRecord \<Rightarrow> RecordError + Location" where
  "toLocation r =
    (let base = \<lparr>AccountID = rec_AccountID r, LocationType = rec_LocationType r,
                 ExtendedAttributes = rec_ExtendedAttributes r\<rparr>
     in if rec_LocationType r = LocationTypeAddress then
          (case rec_Address r of
             None \<Rightarrow> Inl ErrAddressIsNil
           | Some a \<Rightarrow> Inr (IsAddressLocation \<lparr>AddressBase = base, AddressOf = a\<rparr>))
        else if rec_LocationType r = LocationTypeCoordinates then
          (case rec_Coordinates r of
             None \<Rightarrow> Inl ErrCoordinatesIsNil
           | Some c \<Rightarrow> Inr (IsCoordinatesLocation \<lparr>CoordinatesBase = base, CoordinatesOf = c\<rparr>))
        else Inl (ErrUnknownLocationTypeOf (rec_LocationType r)))"

subsection \<open>attributevalue.MarshalMap and UnmarshalMap on a locationRecord\<close>

text \<open>
  The encoder writes a struct as an M under the names of the \<^verbatim>\<open>dynamodbav\<close> tags and
  leaves out an \<^verbatim>\<open>omitempty\<close> field that is empty; it does not fail on the values of this
  model. The decoder matches a key with a field by name, and failing that by
  \<^verbatim>\<open>strings.EqualFold\<close>; NULL sets the destination to its zero value; a value of the wrong
  member type is an \<open>UnmarshalTypeError\<close>, returned at once. Both are library code,
  modelled from its documented behaviour; the properties below take the record the decoder
  returns as given.
\<close>

datatype AVError = AVUnmarshalTypeError string string

fun av_of_interface :: "gvalue \<Rightarrow> AttributeValue" where
  "av_of_interface GNil = AVNULL"
| "av_of_interface (GBool b) = AVBOOL b"
| "av_of_interface (GFloat x) = AVN x"
| "av_of_interface (GString s) = AVS s"
| "av_of_interface (GSlice xs) = AVL (map av_of_interface xs)"
| "av_of_interface (GMap m) = AVM (map (\<lambda>kv. (fst kv, av_of_interface (snd kv))) m)"

definition av_of_Address :: "Address \<Rightarrow> AttributeValue" where
  "av_of_Address a = AVM (go_map
    ([(''streetAddress'', AVS (StreetAddress a))]
     @ (if StreetAddress2 a = [] then [] else [(''streetAddress2'', AVS (StreetAddress2 a))])
     @ [(''city'', AVS (City a))]
     @ (if StateProvince a = [] then [] else [(''stateProvince'', AVS (StateProvince a))])
     @ [(''postalCode'', AVS (PostalCode a)), (''country'', AVS (Country a))]))"

definition av_of_Coordinates :: "Coordinates \<Rightarrow> AttributeValue" where
  "av_of_Coordinates c = AVM (go_map
    ([(''latitude'', AVN (Latitude c)), (''longitude'', AVN (Longitude c))]
     @ (case Altitude c of None \<Rightarrow> [] | Some x \<Rightarrow> [(''altitude'', AVN x)])
     @ (case Accuracy c of None \<Rightarrow> [] | Some x \<Rightarrow> [(''accuracy'', AVN x)])))"

definition attributevalue_MarshalMap :: "locationRecord \<Rightarrow> AVError + item" where
  "attributevalue_MarshalMap r = Inr (go_map
    ([(''PK'', AVS (PK r)), (''SK'', AVS (SK r)), (''accountId'', AVS (rec_AccountID r)),
      (''locationType'', AVS (rec_LocationType r))]
     @ (if rec_ExtendedAttributes r = [] then []
        else [(''extendedAttributes'', av_of_interface (GMap (rec_ExtendedAttributes r)))])
     @ (case rec_Address r of None \<Rightarrow> [] | Some a \<Rightarrow> [(''address'', av_of_Address a)])
     @ (case rec_Coordinates r of None \<Rightarrow> [] | Some c \<Rightarrow> [(''coordinates'', av_of_Coordinates c)])))"

fun av_kind :: "AttributeValue \<Rightarrow> string" where
  "av_kind (AVS s) = ''string''"
| "av_kind (AVN x) = ''number''"
| "av_kind (AVBOOL b) = ''bool''"
| "av_kind AVNULL = ''null''"
| "av_kind (AVL xs) = ''list''"
| "av_kind (AVM m) = ''map''"

definition av_string :: "AttributeValue \<Rightarrow> AVError + string" where
  "av_string v = (case v of AVS s \<Rightarrow> Inr s | AVNULL \<Rightarrow> Inr []
     | _ \<Rightarrow> Inl (AVUnmarshalTypeError (av_kind v) ''string''))"

definition av_float64 :: "AttributeValue \<Rightarrow> AVError + float64" where
  "av_float64 v = (case v of AVN x \<Rightarrow> Inr x | AVNULL \<Rightarrow> Inr (Finite 0)
     | _ \<Rightarrow> Inl (AVUnmarshalTypeError (av_kind v) ''float64''))"

definition av_float64_ptr :: "AttributeValue \<Rightarrow> AVError + float64 option" where
  "av_float64_ptr v = (case v of AVN x \<Rightarrow> Inr (Some x) | AVNULL \<Rightarrow> Inr None
     | _ \<Rightarrow> Inl (AVUnmarshalTypeError (av_kind v) ''*float64''))"

fun av_interface :: "AttributeValue \<Rightarrow> gvalue" where
  "av_interface (AVS s) = GString s"
| "av_interface (AVN x) = GFloat x"
| "av_interface (AVBOOL b) = GBool b"
| "av_interface AVNULL = GNil"
| "av_interface (AVL xs) = GSlice (map av_interface xs)"
| "av_interface (AVM m) = GMap (go_map (map (\<lambda>kv. (fst kv, av_interface (snd kv))) m))"

definition av_map :: "AttributeValue \<Rightarrow> gmap \<Rightarrow> AVError + gmap" where
  "av_map v cur =
    (case v of
       AVM m \<Rightarrow> Inr (fold (\<lambda>kv acc. map_set (fst kv) (av_interface (snd kv)) acc) m cur)
     | AVNULL \<Rightarrow> Inr []
     | _ \<Rightarrow> Inl (AVUnmarshalTypeError (av_kind v) ''map[string]interface {}''))"

definition av_struct ::
  "string \<Rightarrow> (string \<Rightarrow> AttributeValue \<Rightarrow> 'a \<Rightarrow> AVError + 'a) \<Rightarrow> 'a \<Rightarrow> AttributeValue \<Rightarrow> 'a \<Rightarrow> AVError + 'a" where
  "av_struct ty setf zero v a =
    (case v of AVM m \<Rightarrow> decode_fields setf m a | AVNULL \<Rightarrow> Inr zero
     | _ \<Rightarrow> Inl (AVUnmarshalTypeError (av_kind v) ty))"

definition av_set_Address :: "string \<Rightarrow> AttributeValue \<Rightarrow> Address \<Rightarrow> AVError + Address" where
  "av_set_Address k v a =
    (if names k ''streetAddress'' then okmap (av_string v) (\<lambda>s. a\<lparr>StreetAddress := s\<rparr>)
     else if names k ''streetAddress2'' then okmap (av_string v) (\<lambda>s. a\<lparr>StreetAddress2 := s\<rparr>)
     else if names k ''city'' then okmap (av_string v) (\<lambda>s. a\<lparr>City := s\<rparr>)
     else if names k ''stateProvince'' then okmap (av_string v) (\<lambda>s. a\<lparr>StateProvince := s\<rparr>)
     else if names k ''postalCode'' then okmap (av_string v) (\<lambda>s. a\<lparr>PostalCode := s\<rparr>)
     else if names k ''country'' then okmap (av_string v) (\<lambda>s. a\<lparr>Country := s\<rparr>)
     else Inr a)"

definition av_set_Coordinates ::
  "string \<Rightarrow> AttributeValue \<Rightarrow> Coordinates \<Rightarrow> AVError + Coordinates" where
  "av_set_Coordinates k v c =
    (if names k ''latitude'' then okmap (av_float64 v) (\<lambda>x. c\<lparr>Latitude := x\<rparr>)
     else if names k ''longitude'' then okmap (av_float64 v) (\<lambda>x. c\<lparr>Longitude := x\<rparr>)
     else if names k ''altitude'' then okmap (av_float64_ptr v) (\<lambda>x. c\<lparr>Altitude := x\<rparr>)
     else if names k ''accuracy'' then okmap (av_float64_ptr v) (\<lambda>x. c\<lparr>Accuracy := x\<rparr>)
     else Inr c)"

definition av_Address_ptr :: "AttributeValue \<Rightarrow> Address option \<Rightarrow> AVError + Address option" where
  "av_Address_ptr v cur =
    (case v of AVNULL \<Rightarrow> Inr None
     | _ \<Rightarrow> okmap (av_struct ''models.Address'' av_set_Address zero_Address v
                     (case cur of Some a \<Rightarrow> a | None \<Rightarrow> zero_Address)) Some)"

definition av_Coordinates_ptr ::
  "AttributeValue \<Rightarrow> Coordinates option \<Rightarrow> AVError + Coordinates option" where
  "av_Coordinates_ptr v cur =
    (case v of AVNULL \<Rightarrow> Inr None
     | _ \<Rightarrow> okmap (av_struct ''models.Coordinates'' av_set_Coordinates zero_Coordinates v
                     (case cur of Some c \<Rightarrow> c | None \<Rightarrow> zero_Coordinates)) Some)"

definition av_set_locationRecord ::
  "string \<Rightarrow> AttributeValue \<Rightarrow> locationRecord \<Rightarrow> AVError + locationRecord" where
  "av_set_locationRecord k v r =
    (if names k ''PK'' then okmap (av_string v) (\<lambda>s. r\<lparr>PK := s\<rparr>)
     else if names k ''SK'' then okmap (av_string v) (\<lambda>s. r\<lparr>SK := s\<rparr>)
     else if names k ''accountId'' then okmap (av_string v) (\<lambda>s. r\<lparr>rec_AccountID := s\<rparr>)
     else if names k ''locationType'' then okmap (av_string v) (\<lambda>s. r\<lparr>rec_LocationType := s\<rparr>)
     else if names k ''extendedAttributes''
       then okmap (av_map v (rec_ExtendedAttributes r)) (\<lambda>m. r\<lparr>rec_ExtendedAttributes := m\<rparr>)
     else if names k ''address''
       then okmap (av_Address_ptr v (rec_Address r)) (\<lambda>a. r\<lparr>rec_Address := a\<rparr>)
     else if names k ''coordinates''
       then okmap (av_Coordinates_ptr v (rec_Coordinates r)) (\<lambda>c. r\<lparr>rec_Coordinates := c\<rparr>)
     else Inr r)"

definition zero_locationRecord :: locationRecord where
  "zero_locationRecord = \<lparr>PK = [], SK = [], rec_AccountID = [], rec_LocationType = [],
     rec_ExtendedAttributes = [], rec_Address = None, rec_Coordinates = None\<rparr>"

definition attributevalue_UnmarshalMap :: "item \<Rightarrow> AVError + locationRecord" where
  "attributevalue_UnmarshalMap it = decode_fields av_set_locationRecord it zero_locationRecord"

subsection \<open>The DynamoDB client\<close>

text \<open>
  The repository talks to the store through the interface \<^verbatim>\<open>DynamoDBClient\<close>: four
  calls, each answering with an output or an error. \<^verbatim>\<open>errors.As\<close> finds a
  \<^verbatim>\<open>*types.ConditionalCheckFailedException\<close> in the error or it does not; every other
  error of a call is a \<open>ServiceError\<close>. The outputs carry the fields the repository reads.
\<close>

datatype ClientError = ConditionalCheckFailedException string | ServiceError string

fun is_ConditionalCheckFailed :: "ClientError \<Rightarrow> bool" where
  "is_ConditionalCheckFailed (ConditionalCheckFailedException msg) = True"
| "is_ConditionalCheckFailed (ServiceError msg) = False"

record PutItemInput =
  put_TableName :: string
  put_Item :: item
  put_ConditionExpression :: string
  put_ExpressionAttributeValues :: item

record GetItemInput =
  get_TableName :: string
  get_Key :: item

record GetItemOutput =
  out_Item :: "item option"

record DeleteItemInput =
  del_TableName :: string
  del_Key :: item
  del_ConditionExpression :: string
  del_ExpressionAttributeValues :: item

record QueryInput =
  qry_TableName :: string
  qry_IndexName :: string
  qry_KeyConditionExpression :: string
  qry_ExpressionAttributeValues :: item
  qry_Limit :: int
  qry_ExclusiveStartKey :: "item option"
  qry_ScanIndexForward :: bool

record QueryOutput =
  out_Items :: "item list"
  out_LastEvaluatedKey :: "item option"

record DynamoDBClient =
  PutItem :: "PutItemInput \<Rightarrow> ClientError + unit"
  GetItem :: "GetItemInput \<Rightarrow> ClientError + GetItemOutput"
  DeleteItem :: "DeleteItemInput \<Rightarrow> ClientError + unit"
  Query :: "QueryInput \<Rightarrow> ClientError + QueryOutput"

record DynamoDBRepository =
  client :: DynamoDBClient
  tableName :: string
  gsiName :: string
  defaultLimit :: int

definition NewDynamoDBRepository :: "DynamoDBClient \<Rightarrow> string \<Rightarrow> string \<Rightarrow> DynamoDBRepository" where
  "NewDynamoDBRepository c table gsi =
    \<lparr>client = c, tableName = table, gsiName = gsi, defaultLimit = 20\<rparr>"

subsection \<open>Cursors\<close>

text \<open>
  A cursor string passes only through \<^verbatim>\<open>base64.StdEncoding\<close> and encoding/json. It is
  represented by what \<^verbatim>\<open>DecodeString\<close> makes of it: the empty string, a string that
  is not base64 (\<^verbatim>\<open>CorruptInputError\<close>), or a non-empty string with the bytes it
  decodes to, these again as JSON text. \<^verbatim>\<open>EncodeToString\<close> of the bytes of a JSON
  document is the string that decodes to them.
\<close>

datatype cursor_string = EmptyString | NotBase64 | Base64 json_text

datatype CursorError
  = ErrMarshalCursor MarshalError
  | ErrDecodeBase64
  | ErrUnmarshalCursor UnmarshalError

definition base64_EncodeToString :: "json_text \<Rightarrow> cursor_string" where
  "base64_EncodeToString data = Base64 data"

definition base64_DecodeString :: "cursor_string \<Rightarrow> unit + json_text" where
  "base64_DecodeString s =
    (case s of EmptyString \<Rightarrow> Inr (Malformed ''unexpected end of JSON input'')
     | NotBase64 \<Rightarrow> Inl ()
     | Base64 data \<Rightarrow> Inr data)"

definition zero_paginationCursor :: paginationCursor where
  "zero_paginationCursor = \<lparr>cur_PK = [], cur_SK = [], cur_AccountID = []\<rparr>"

definition json_Marshal_paginationCursor :: "paginationCursor \<Rightarrow> MarshalError + json_text" where
  "json_Marshal_paginationCursor c = Inr (Text (JObj
     [(''pk'', JStr (cur_PK c)), (''sk'', JStr (cur_SK c)), (''accountId'', JStr (cur_AccountID c))]))"

definition set_paginationCursor ::
  "string \<Rightarrow> json \<Rightarrow> paginationCursor \<Rightarrow> UnmarshalError + paginationCursor" where
  "set_paginationCursor k v c =
    (if names k ''pk'' then okmap (decode_string ''string'' v (cur_PK c)) (\<lambda>s. c\<lparr>cur_PK := s\<rparr>)
     else if names k ''sk'' then okmap (decode_string ''string'' v (cur_SK c)) (\<lambda>s. c\<lparr>cur_SK := s\<rparr>)
     else if names k ''accountId''
       then okmap (decode_string ''string'' v (cur_AccountID c)) (\<lambda>s. c\<lparr>cur_AccountID := s\<rparr>)
     else Inr c)"

definition decode_paginationCursor ::
  "json \<Rightarrow> paginationCursor \<Rightarrow> UnmarshalError + paginationCursor" where
  "decode_paginationCursor = decode_struct ''repository.paginationCursor'' set_paginationCursor"

definition encodeCursor :: "paginationCursor option \<Rightarrow> CursorError + cursor_string option" where
  "encodeCursor cursor =
    (case cursor of
       None \<Rightarrow> Inr None
     | Some c \<Rightarrow>
        (case json_Marshal_paginationCursor c of
           Inl err \<Rightarrow> Inl (ErrMarshalCursor err)
         | Inr data \<Rightarrow> Inr (Some (base64_EncodeToString data))))"

definition decodeCursor :: "cursor_string option \<Rightarrow> CursorError + paginationCursor option" where
  "decodeCursor cursorStr =
    (case cursorStr of
       None \<Rightarrow> Inr None
     | Some s \<Rightarrow>
        if s = EmptyString then Inr None
        else (case base64_DecodeString s of
                Inl err \<Rightarrow> Inl ErrDecodeBase64
              | Inr data \<Rightarrow>
                 (case json_Unmarshal decode_paginationCursor data zero_paginationCursor of
                    Inl err \<Rightarrow> Inl (ErrUnmarshalCursor err)
                  | Inr cursor \<Rightarrow> Inr (Some cursor))))"

definition cursorToLastEvaluatedKey :: "paginationCursor option \<Rightarrow> item option" where
  "cursorToLastEvaluatedKey cursor =
    (case cursor of
       None \<Rightarrow> None
     | Some c \<Rightarrow> Some (go_map [(''PK'', AVS (cur_PK c)), (''SK'', AVS (cur_SK c)),
                                (''accountId'', AVS (cur_AccountID c))]))"

definition attr_S :: "item \<Rightarrow> string \<Rightarrow> string" where
  "attr_S lek k = (case map_get lek k of Some (AVS s) \<Rightarrow> s | _ \<Rightarrow> [])"

definition lastEvaluatedKeyToCursor :: "item option \<Rightarrow> paginationCursor option" where
  "lastEvaluatedKeyToCursor lek =
    (case lek of
       None \<Rightarrow> None
     | Some k \<Rightarrow> Some \<lparr>cur_PK = attr_S k ''PK'', cur_SK = attr_S k ''SK'',
                        cur_AccountID = attr_S k ''accountId''\<rparr>)"

subsection \<open>The operations of the repository\<close>

text \<open>
  One constructor for every error the operations return; the comment gives the message.
  \<open>ErrRecord\<close> is the error of \<^verbatim>\<open>toLocation\<close>, which \<^verbatim>\<open>Get\<close> returns as it is.
\<close>

datatype RepoError
  = ErrValidationFailed ValidationError \<comment> \<open>validation failed: %w\<close>
  | ErrConvertToRecord RecordError \<comment> \<open>failed to convert location to record: %w\<close>
  | ErrMarshalLocation AVError \<comment> \<open>failed to marshal location: %w\<close>
  | ErrLocationAlreadyExists \<comment> \<open>location already exists\<close>
  | ErrCreateLocation ClientError \<comment> \<open>failed to create location: %w\<close>
  | ErrGetLocation ClientError \<comment> \<open>failed to get location: %w\<close>
  | ErrLocationNotFound \<comment> \<open>location not found\<close>
  | ErrUnmarshalLocation AVError \<comment> \<open>failed to unmarshal location: %w\<close>
  | ErrRecord RecordError
  | ErrNotFoundOrAccessDenied \<comment> \<open>location not found or access denied\<close>
  | ErrUpdateLocation ClientError \<comment> \<open>failed to update location: %w\<close>
  | ErrDeleteLocation ClientError \<comment> \<open>failed to delete location: %w\<close>
  | ErrDecodeCursor CursorError \<comment> \<open>failed to decode cursor: %w\<close>
  | ErrListLocations ClientError \<comment> \<open>failed to list locations: %w\<close>
  | ErrConvertRecord RecordError \<comment> \<open>failed to convert record to location: %w\<close>
  | ErrEncodeCursor CursorError \<comment> \<open>failed to encode cursor: %w\<close>

text \<open>\<^verbatim>\<open>Create\<close> takes the identifier that \<^verbatim>\<open>uuid.New().String()\<close> draws as \<open>uuid\<close>.\<close>

definition Create :: "DynamoDBRepository \<Rightarrow> string \<Rightarrow> Location \<Rightarrow> RepoError + string" where
  "Create r uuid location =
    (case Validate location of
       Some err \<Rightarrow> Inl (ErrValidationFailed err)
     | None \<Rightarrow>
        (let locationID = uuid in
         case toLocationRecord location locationID of
           Inl err \<Rightarrow> Inl (ErrConvertToRecord err)
         | Inr rec \<Rightarrow>
            (case attributevalue_MarshalMap rec of
               Inl err \<Rightarrow> Inl (ErrMarshalLocation err)
             | Inr av \<Rightarrow>
                (case PutItem (client r)
                        \<lparr>put_TableName = tableName r, put_Item = av,
                         put_ConditionExpression =
                           ''attribute_not_exists(PK) AND attribute_not_exists(SK)'',
                         put_ExpressionAttributeValues = []\<rparr> of
                   Inl err \<Rightarrow>
                     if is_ConditionalCheckFailed err then Inl ErrLocationAlreadyExists
                     else Inl (ErrCreateLocation err)
                 | Inr out \<Rightarrow> Inr locationID))))"


definition Update :: "DynamoDBRepository \<Rightarrow> Location \<Rightarrow> string \<Rightarrow> RepoError option" where
  "Update r location locationID =
    (case Validate location of
       Some err \<Rightarrow> Some (ErrValidationFailed err)
     | None \<Rightarrow>
        (case toLocationRecord location locationID of
           Inl err \<Rightarrow> Some (ErrConvertToRecord err)
         | Inr rec \<Rightarrow>
            (case attributevalue_MarshalMap rec of
               Inl err \<Rightarrow> Some (ErrMarshalLocation err)
             | Inr av \<Rightarrow>
                (case PutItem (client r)
                        \<lparr>put_TableName = tableName r, put_Item = av,
                         put_ConditionExpression =
                           ''attribute_exists(PK) AND attribute_exists(SK) AND accountId = :accountId'',
                         put_ExpressionAttributeValues =
                           go_map [('':accountId'', AVS (GetAccountID location))]\<rparr> of
                   Inl err \<Rightarrow>
                     if is_ConditionalCheckFailed err then Some ErrNotFoundOrAccessDenied
                     else Some (ErrUpdateLocation err)
                 | Inr out \<Rightarrow> None))))"

definition Delete :: "DynamoDBRepository \<Rightarrow> string \<Rightarrow> string \<Rightarrow> RepoError option" where
  "Delete r accountID locationID =
    (let key = go_map [(''PK'', AVS locationID), (''SK'', AVS accountID)] in
     case DeleteItem (client r)
            \<lparr>del_TableName = tableName r, del_Key = key,
             del_ConditionExpression =
               ''attribute_exists(PK) AND attribute_exists(SK) AND accountId = :accountId'',
             del_ExpressionAttributeValues = go_map [('':accountId'', AVS accountID)]\<rparr> of
       Inl err \<Rightarrow>
         if is_ConditionalCheckFailed err then Some ErrNotFoundOrAccessDenied
         else Some (ErrDeleteLocation err)
     | Inr out \<Rightarrow> None)"

record ListOptions =
  Limit :: "int option"
  Cursor :: "cursor_string option"

record ListResult =
  Locations :: "Location list"
  NextCursor :: "cursor_string option"

text \<open>
  \<^verbatim>\<open>List\<close>, in the three steps of its body: the limit and the start key it computes from
  the options, the query it sends, and what it makes of the answer.
\<close>

definition ListLimit :: "DynamoDBRepository \<Rightarrow> ListOptions option \<Rightarrow> int" where
  "ListLimit r options =
    (case options of
       Some opts \<Rightarrow> (case Limit opts of Some l \<Rightarrow> l | None \<Rightarrow> defaultLimit r)
     | None \<Rightarrow> defaultLimit r)"

definition ListStartKey :: "ListOptions option \<Rightarrow> RepoError + item option" where
  "ListStartKey options =
    (case options of
       Some opts \<Rightarrow>
        (case Cursor opts of
           Some c \<Rightarrow>
            (case decodeCursor (Some c) of
               Inl err \<Rightarrow> Inl (ErrDecodeCursor err)
             | Inr cursor \<Rightarrow> Inr (cursorToLastEvaluatedKey cursor))
         | None \<Rightarrow> Inr None)
     | None \<Rightarrow> Inr None)"

definition ListQueryInput :: "DynamoDBRepository \<Rightarrow> string \<Rightarrow> int \<Rightarrow> item option \<Rightarrow> QueryInput" where
  "ListQueryInput r accountID limit startKey =
    \<lparr>qry_TableName = tableName r, qry_IndexName = gsiName r,
     qry_KeyConditionExpression = ''accountId = :accountId'',
     qry_ExpressionAttributeValues = go_map [('':accountId'', AVS accountID)],
     qry_Limit = limit, qry_ExclusiveStartKey = startKey, qry_ScanIndexForward = True\<rparr>"

fun convert_items :: "item list \<Rightarrow> RepoError + Location list" where
  "convert_items [] = Inr []"
| "convert_items (it # items) =
    (case attributevalue_UnmarshalMap it of
       Inl err \<Rightarrow> Inl (ErrUnmarshalLocation err)
     | Inr rec \<Rightarrow>
        (case toLocation rec of
           Inl err \<Rightarrow> Inl (ErrConvertRecord err)
         | Inr location \<Rightarrow> okmap (convert_items items) (\<lambda>locations. location # locations)))"

definition ListAnswer :: "ClientError + QueryOutput \<Rightarrow> RepoError + ListResult" where
  "ListAnswer answer =
    (case answer of
       Inl err \<Rightarrow> Inl (ErrListLocations err)
     | Inr result \<Rightarrow>
        (case convert_items (out_Items result) of
           Inl err \<Rightarrow> Inl err
         | Inr locations \<Rightarrow>
            (case out_LastEvaluatedKey result of
               None \<Rightarrow> Inr \<lparr>Locations = locations, NextCursor = None\<rparr>
             | Some lek \<Rightarrow>
                (case encodeCursor (lastEvaluatedKeyToCursor (Some lek)) of
                   Inl err \<Rightarrow> Inl (ErrEncodeCursor err)
                 | Inr nextCursor \<Rightarrow> Inr \<lparr>Locations = locations, NextCursor = nextCursor\<rparr>))))"

definition List :: "DynamoDBRepository \<Rightarrow> string \<Rightarrow> ListOptions option \<Rightarrow> RepoError + ListResult" where
  "List r accountID options =
    (let limit = ListLimit r options in
     case ListStartKey options of
       Inl err \<Rightarrow> Inl err
     | Inr startKey \<Rightarrow>
         ListAnswer (Query (client r) (ListQueryInput r accountID limit startKey)))"

subsection \<open>The store behind the client\<close>

text \<open>
  A reference model of the collaborator: one table with the key (PK, SK) and one index
  on \<^verbatim>\<open>accountId\<close>, holding its items in the order of the index. \<open>db_Failure\<close> is the
  failure (network, throttling) that the next call meets, if any. The model reads the
  condition expressions the repository sends and refuses any other expression. A conditional
  write whose condition is false fails with \<^verbatim>\<open>ConditionalCheckFailedException\<close>. A query
  gives the items of the partition after the start key, at most \<open>Limit\<close> of them, and a
  last evaluated key when it stopped at the limit.
\<close>

record DynamoDB =
  db_TableName :: string
  db_IndexName :: string
  db_Items :: "item list"
  db_Failure :: "string option"

definition key_of :: "item \<Rightarrow> (string \<times> string) option" where
  "key_of it =
    (case map_get it ''PK'' of
       Some (AVS pk) \<Rightarrow> (case map_get it ''SK'' of Some (AVS sk) \<Rightarrow> Some (pk, sk) | _ \<Rightarrow> None)
     | _ \<Rightarrow> None)"

definition find_item :: "DynamoDB \<Rightarrow> string \<times> string \<Rightarrow> item option" where
  "find_item db k = find (\<lambda>it. key_of it = Some k) (db_Items db)"

definition unavailable :: "DynamoDB \<Rightarrow> string \<Rightarrow> ClientError option" where
  "unavailable db table =
    (case db_Failure db of
       Some msg \<Rightarrow> Some (ServiceError msg)
     | None \<Rightarrow> if table = db_TableName db then None
               else Some (ServiceError ''ResourceNotFoundException''))"

definition condition_holds :: "string \<Rightarrow> item \<Rightarrow> item option \<Rightarrow> ClientError + bool" where
  "condition_holds expr vals existing =
    (if expr = ''attribute_not_exists(PK) AND attribute_not_exists(SK)'' then
       Inr (case existing of None \<Rightarrow> True
            | Some it \<Rightarrow> map_get it ''PK'' = None \<and> map_get it ''SK'' = None)
     else if expr = ''attribute_exists(PK) AND attribute_exists(SK) AND accountId = :accountId'' then
       (case map_get vals '':accountId'' of
          None \<Rightarrow> Inl (ServiceError ''ValidationException'')
        | Some v \<Rightarrow>
            Inr (case existing of None \<Rightarrow> False
                 | Some it \<Rightarrow> map_get it ''PK'' \<noteq> None \<and> map_get it ''SK'' \<noteq> None
                     \<and> map_get it ''accountId'' = Some v))
     else Inl (ServiceError ''ValidationException''))"

definition ddb_PutItem :: "DynamoDB \<Rightarrow> PutItemInput \<Rightarrow> (ClientError + unit) \<times> DynamoDB" where
  "ddb_PutItem db input =
    (case unavailable db (put_TableName input) of
       Some err \<Rightarrow> (Inl err, db)
     | None \<Rightarrow>
        (case key_of (put_Item input) of
           None \<Rightarrow> (Inl (ServiceError ''ValidationException''), db)
         | Some k \<Rightarrow>
            (case condition_holds (put_ConditionExpression input)
                    (put_ExpressionAttributeValues input) (find_item db k) of
               Inl err \<Rightarrow> (Inl err, db)
             | Inr False \<Rightarrow>
                 (Inl (ConditionalCheckFailedException ''The conditional request failed''), db)
             | Inr True \<Rightarrow>
                 (Inr (), db\<lparr>db_Items :=
                    filter (\<lambda>it. key_of it \<noteq> Some k) (db_Items db) @ [put_Item input]\<rparr>))))"

definition ddb_GetItem :: "DynamoDB \<Rightarrow> GetItemInput \<Rightarrow> ClientError + GetItemOutput" where
  "ddb_GetItem db input =
    (case unavailable db (get_TableName input) of
       Some err \<Rightarrow> Inl err
     | None \<Rightarrow>
        (case key_of (get_Key input) of
           None \<Rightarrow> Inl (ServiceError ''ValidationException'')
         | Some k \<Rightarrow> Inr \<lparr>out_Item = find_item db k\<rparr>))"

definition ddb_DeleteItem :: "DynamoDB \<Rightarrow> DeleteItemInput \<Rightarrow> (ClientError + unit) \<times> DynamoDB" where
  "ddb_DeleteItem db input =
    (case unavailable db (del_TableName input) of
       Some err \<Rightarrow> (Inl err, db)
     | None \<Rightarrow>
        (case key_of (del_Key input) of
           None \<Rightarrow> (Inl (ServiceError ''ValidationException''), db)
         | Some k \<Rightarrow>
            (case condition_holds (del_ConditionExpression input)
                    (del_ExpressionAttributeValues input) (find_item db k) of
               Inl err \<Rightarrow> (Inl err, db)
             | Inr False \<Rightarrow>
                 (Inl (ConditionalCheckFailedException ''The conditional request failed''), db)
             | Inr True \<Rightarrow>
                 (Inr (), db\<lparr>db_Items := filter (\<lambda>it. key_of it \<noteq> Some k) (db_Items db)\<rparr>))))"

definition after_key :: "item option \<Rightarrow> item list \<Rightarrow> item list" where
  "after_key start items =
    (case start of
       None \<Rightarrow> items
     | Some k \<Rightarrow>
        (case dropWhile (\<lambda>it. key_of it \<noteq> key_of k) items of
           [] \<Rightarrow> []
         | it # rest \<Rightarrow> rest))"

definition index_key :: "item \<Rightarrow> item" where
  "index_key it =
    filter (\<lambda>kv. fst kv = ''PK'' \<or> fst kv = ''SK'' \<or> fst kv = ''accountId'') it"

definition ddb_Query :: "DynamoDB \<Rightarrow> QueryInput \<Rightarrow> ClientError + QueryOutput" where
  "ddb_Query db input =
    (case unavailable db (qry_TableName input) of
       Some err \<Rightarrow> Inl err
     | None \<Rightarrow>
        if qry_IndexName input \<noteq> db_IndexName db
             \<or> qry_KeyConditionExpression input \<noteq> ''accountId = :accountId''
             \<or> qry_Limit input < 1
        then Inl (ServiceError ''ValidationException'')
        else
          (case map_get (qry_ExpressionAttributeValues input) '':accountId'' of
             None \<Rightarrow> Inl (ServiceError ''ValidationException'')
           | Some v \<Rightarrow>
              (let partition = filter (\<lambda>it. map_get it ''accountId'' = Some v) (db_Items db);
                   rest = after_key (qry_ExclusiveStartKey input) partition;
                   page = take (nat (qry_Limit input)) rest
               in Inr \<lparr>out_Items = page,
                       out_LastEvaluatedKey =
                         (if nat (qry_Limit input) \<le> length rest then Some (index_key (last page))
                          else None)\<rparr>)))"

definition dynamodb_client :: "DynamoDB \<Rightarrow> DynamoDBClient" where
  "dynamodb_client db =
    \<lparr>PutItem = (\<lambda>input. fst (ddb_PutItem db input)),
     GetItem = ddb_GetItem db,
     DeleteItem = (\<lambda>input. fst (ddb_DeleteItem db input)),
     Query = ddb_Query db\<rparr>"

section \<open>Package handler\<close>






subsection \<open>The argument structs\<close>














subsection \<open>Responses and errors\<close>




subsection \<open>The handlers\<close>








section \<open>Example values\<close>

definition example_shop :: Location where
  "example_shop = IsShopLocation
      \<lparr>ShopBase = \<lparr>AccountID = ''acc-54321'', LocationType = ''shop'',
          ExtendedAttributes = [(''tags'', GSlice [GString ''a'', GFloat (Finite 2), GNil]),
             (''verified'', GBool True), (''w'', GMap [(''x'', GFloat (Finite (1 / 2)))])]\<rparr>,
        ShopOf = \<lparr>Name = ''Coffee Shop'', ContactID = ''contact-1'',
          ShopAddress = \<lparr>StreetAddress = ''123 Main St'', StreetAddress2 = ''Suite 100'',
            City = ''Springfield'', StateProvince = [], PostalCode = ''12345'', Country = ''US''\<rparr>\<rparr>\<rparr>"


definition example_db :: DynamoDB where
  "example_db = \<lparr>db_TableName = ''locations'', db_IndexName = ''accountId-index'', db_Items = [],
     db_Failure = None\<rparr>"

definition example_address :: Location where
  "example_address = IsAddressLocation
      \<lparr>AddressBase = \<lparr>AccountID = ''acc-12345'', LocationType = ''address'', ExtendedAttributes = []\<rparr>,
        AddressOf = \<lparr>StreetAddress = ''123 Main St'', StreetAddress2 = [], City = ''Springfield'',
          StateProvince = [], PostalCode = ''12345'', Country = ''US''\<rparr>\<rparr>"

definition example_item :: item where
  "example_item =
     [(''PK'', AVS ''loc-001''), (''SK'', AVS ''acc-12345''), (''accountId'', AVS ''acc-12345''),
      (''address'', AVM [(''city'', AVS ''Springfield''), (''country'', AVS ''US''),
         (''postalCode'', AVS ''12345''), (''streetAddress'', AVS ''123 Main St'')]),
      (''locationType'', AVS ''address'')]"

definition example_repository :: "DynamoDB \<Rightarrow> DynamoDBRepository" where
  "example_repository db = NewDynamoDBRepository (dynamodb_client db) ''locations'' ''accountId-index''"

definition example_db_stored :: DynamoDB where
  "example_db_stored = example_db\<lparr>db_Items := [example_item]\<rparr>"

definition example_db_foreign :: DynamoDB where
  "example_db_foreign = example_db\<lparr>db_Items :=
     [[(''PK'', AVS ''loc-001''), (''SK'', AVS ''acc-12345''), (''accountId'', AVS ''acc-99999''),
       (''locationType'', AVS ''address'')]]\<rparr>"



section \<open>Properties\<close>

lemmas decode_defs =
  UnmarshalLocation_def json_Unmarshal_def decode_base_def decode_struct_def set_base_def
  names_def upper_def decode_string_def decode_float64_def decode_float64_ptr_def decode_map_def
  okmap_def and_then_def
  LocationTypeAddress_def LocationTypeCoordinates_def LocationTypeShop_def
  decode_AddressLocation_def decode_CoordinatesLocation_def decode_ShopLocation_def
  set_AddressLocation_def set_CoordinatesLocation_def set_ShopLocation_def
  base_key_def set_LocationBase_def
  decode_Address_def decode_Coordinates_def decode_Shop_def
  set_Address_def set_Coordinates_def set_Shop_def
  zero_LocationBase_def zero_Address_def zero_Coordinates_def zero_Shop_def

subsection \<open>Keys and fields\<close>

declare foldName.simps [simp del]

lemma names_iff: "names k f = (foldName k = foldName f)"
  by (auto simp: names_def)

lemma fold_literals:
  "foldName ''accountId'' = ''ACCOUNTID''"
  "foldName ''locationType'' = ''LOCATIONTYPE''"
  "foldName ''extendedAttributes'' = ''EXTENDEDATTRIBUTES''"
  "foldName ''address'' = ''ADDRESS''"
  "foldName ''coordinates'' = ''COORDINATES''"
  "foldName ''shop'' = ''SHOP''"
  "foldName ''streetAddress'' = ''STREETADDRESS''"
  "foldName ''streetAddress2'' = ''STREETADDRESS2''"
  "foldName ''city'' = ''CITY''"
  "foldName ''stateProvince'' = ''STATEPROVINCE''"
  "foldName ''postalCode'' = ''POSTALCODE''"
  "foldName ''country'' = ''COUNTRY''"
  "foldName ''latitude'' = ''LATITUDE''"
  "foldName ''longitude'' = ''LONGITUDE''"
  "foldName ''altitude'' = ''ALTITUDE''"
  "foldName ''accuracy'' = ''ACCURACY''"
  "foldName ''name'' = ''NAME''"
  "foldName ''contactId'' = ''CONTACTID''"
  by code_simp+

lemma map_set_last:
  "sorted_wrt (<) (map fst (acc @ [(k, v)])) \<Longrightarrow> map_set k v acc = acc @ [(k, v)]"
  by (induction acc) (auto simp: sorted_wrt_append)

lemma interface_roundtrip:
  "(marshal_interface g = Inr j \<longrightarrow> wf_gvalue g \<longrightarrow> decode_interface j = Inr g)"
  "(marshal_slice xs = Inr js \<longrightarrow> list_all wf_gvalue xs \<longrightarrow> decode_array js = Inr xs)"
  "(marshal_entries m = Inr kjs \<longrightarrow> list_all (\<lambda>kv. wf_gvalue (snd kv)) m \<longrightarrow>
      (\<forall>acc. ascending (map fst (acc @ m)) \<longrightarrow> decode_object kjs acc = Inr (acc @ m)))"
proof (induction g and xs and m arbitrary: j and js and kjs rule: marshal_interface_marshal_slice_marshal_entries.induct)
  case (3 x)
  then show ?case by (cases x) (auto simp: marshal_float64_def)
next
  case (5 xs)
  then show ?case by (auto simp: okmap_def split: sum.splits)
next
  case (6 m)
  then show ?case by (auto simp: okmap_def split: sum.splits)
next
  case (8 x xs)
  then show ?case by (auto simp: okmap_def split: sum.splits)
next
  case (10 kv kvs)
  show ?case
  proof (intro impI allI)
    fix acc
    assume m: "marshal_entries (kv # kvs) = Inr kjs"
      and wf: "list_all (\<lambda>kv. wf_gvalue (snd kv)) (kv # kvs)"
      and asc: "ascending (map fst (acc @ kv # kvs))"
    from m obtain j js where j: "marshal_interface (snd kv) = Inr j"
      and js: "marshal_entries kvs = Inr js" and kjs: "kjs = (fst kv, j) # js"
      by (auto simp: okmap_def split: sum.splits)
    from "10.IH"(1) j wf have d: "decode_interface j = Inr (snd kv)" by simp
    from asc have asc1: "sorted_wrt (<) (map fst (acc @ [(fst kv, snd kv)]))"
      and asc2: "ascending (map fst ((acc @ [kv]) @ kvs))"
      by (auto simp: ascending_def sorted_wrt_append)
    have s: "map_set (fst kv) (snd kv) acc = acc @ [kv]"
      using map_set_last [OF asc1] by simp
    from "10.IH"(2) [OF j] js wf asc2
    have "decode_object js (acc @ [kv]) = Inr ((acc @ [kv]) @ kvs)" by simp
    with d s kjs show "decode_object kjs acc = Inr (acc @ kv # kvs)" by simp
  qed
qed (auto)

subsection \<open>Decoding what was encoded\<close>





lemma and_then_Inr: "and_then r f = Inr y \<longleftrightarrow> (\<exists>x. r = Inr x \<and> f x = Inr y)"
  by (cases r) (auto simp: and_then_def)

lemma okmap_Inr: "okmap r f = Inr y \<longleftrightarrow> (\<exists>x. r = Inr x \<and> y = f x)"
  by (cases r) (auto simp: okmap_def)




lemma entries_roundtrip:
  "marshal_entries m = Inr kjs \<Longrightarrow> wf_gmap m \<Longrightarrow> decode_object kjs [] = Inr m"
  using interface_roundtrip(3) [of m kjs] by (simp add: wf_gmap_def)

lemma marshal_LocationBase_Inr:
  "marshal_LocationBase b = Inr kjs \<longleftrightarrow>
    (ExtendedAttributes b = [] \<and>
       kjs = [(''accountId'', JStr (AccountID b)), (''locationType'', JStr (LocationType b))])
    \<or> (ExtendedAttributes b \<noteq> [] \<and> (\<exists>js. marshal_entries (ExtendedAttributes b) = Inr js \<and>
       kjs = [(''accountId'', JStr (AccountID b)), (''locationType'', JStr (LocationType b)),
              (''extendedAttributes'', JObj js)]))"
  by (auto simp: marshal_LocationBase_def and_then_Inr okmap_Inr)

lemma LocationBase_roundtrip:
  assumes "marshal_LocationBase b = Inr kjs" and "wf_gmap (ExtendedAttributes b)"
  shows "decode_fields set_LocationBase kjs zero_LocationBase = Inr b"
  using assms unfolding marshal_LocationBase_Inr
  by (cases b)
     (auto simp: set_LocationBase_def zero_LocationBase_def decode_map_def
        names_iff fold_literals okmap_def decode_string_def entries_roundtrip)













subsection \<open>The errors of the decoders\<close>















subsection \<open>UnmarshalLocation on every input\<close>









subsection \<open>Cursors, Create and the items of the store\<close>



lemma Create_ShopLocation:
  "Validate (IsShopLocation l) = None \<Longrightarrow>
   Create r uuid (IsShopLocation l) = Inl (ErrConvertToRecord ErrUnknownLocation)"
  by (simp add: Create_def toLocationRecord_def)

text \<open>
  Claim C1 says that \<^verbatim>\<open>Create\<close> stores every location that passes validation, a
  \<^verbatim>\<open>ShopLocation\<close> included. The type switch of \<^verbatim>\<open>toLocationRecord\<close> has no case for
  \<^verbatim>\<open>ShopLocation\<close>: for every valid one, with any client and any identifier,
  \<^verbatim>\<open>Create\<close> returns "failed to convert location to record: unknown location type" and
  never calls the store. The theorem evaluates \<^verbatim>\<open>Create\<close> at a valid shop location.
\<close>

theorem Create_rejects_valid_ShopLocation:
  "Validate example_shop = None
   \<and> Create (NewDynamoDBRepository (dynamodb_client example_db) ''locations'' ''accountId-index'')
        ''0b7e3c1a-5d2f-4e8a-9c46-1f2a3b4c5d6e'' example_shop
      = Inl (ErrConvertToRecord ErrUnknownLocation)"
proof -
  have v: "Validate example_shop = None" by code_simp
  then show ?thesis
    by (simp add: Create_def toLocationRecord_def example_shop_def)
qed

lemma map_get_map_set: "map_get (map_set k v m) k' = (if k' = k then Some v else map_get m k')"
  by (induction m) auto

lemma map_get_fold_map_set:
  "map_get (fold (\<lambda>kv m. map_set (fst kv) (snd kv) m) kvs m0) k =
     (case map_of (rev kvs) k of Some v \<Rightarrow> Some v | None \<Rightarrow> map_get m0 k)"
  by (induction kvs arbitrary: m0) (auto simp: map_get_map_set split: option.splits)

lemma map_get_go_map: "map_get (go_map kvs) k = map_of (rev kvs) k"
  by (simp add: go_map_def map_get_fold_map_set split: option.splits)

lemma key_of_MarshalMap:
  "attributevalue_MarshalMap rec = Inr av \<Longrightarrow> key_of av = Some (PK rec, SK rec)"
  by (auto simp: attributevalue_MarshalMap_def key_of_def map_get_go_map map_add_def
        split: option.splits)

lemma accountId_of_MarshalMap:
  "attributevalue_MarshalMap rec = Inr av \<Longrightarrow> map_get av ''accountId'' = Some (AVS (rec_AccountID rec))"
  by (auto simp: attributevalue_MarshalMap_def map_get_go_map map_add_def split: option.splits)

lemma key_of_key:
  "key_of (go_map [(''PK'', AVS pk), (''SK'', AVS sk)]) = Some (pk, sk)"
  by (simp add: key_of_def map_get_go_map)

subsection \<open>Update and Delete against the store\<close>

lemma find_item_Some: "find_item db k = Some it \<Longrightarrow> key_of it = Some k"
  by (auto simp: find_item_def find_Some_iff)

lemma key_of_attrs: "key_of it = Some k \<Longrightarrow> map_get it ''PK'' \<noteq> None \<and> map_get it ''SK'' \<noteq> None"
  by (auto simp: key_of_def split: option.splits AttributeValue.splits)

lemma toLocationRecord_keys:
  "toLocationRecord location locationID = Inr rec \<Longrightarrow>
     PK rec = locationID \<and> SK rec = GetAccountID location \<and> rec_AccountID rec = GetAccountID location"
  by (cases location) (auto simp: toLocationRecord_def Let_def)

lemma exists_condition:
  "condition_holds ''attribute_exists(PK) AND attribute_exists(SK) AND accountId = :accountId''
     (go_map [('':accountId'', AVS a)]) existing =
   Inr (case existing of None \<Rightarrow> False
        | Some it \<Rightarrow> map_get it ''PK'' \<noteq> None \<and> map_get it ''SK'' \<noteq> None
            \<and> map_get it ''accountId'' = Some (AVS a))"
  by (simp add: condition_holds_def map_get_go_map)

lemma Update_store:
  "Update (NewDynamoDBRepository (dynamodb_client db) (db_TableName db) gsi) location locationID
      = Some ErrNotFoundOrAccessDenied
   \<longleftrightarrow> Validate location = None \<and> (\<exists>rec. toLocationRecord location locationID = Inr rec)
       \<and> db_Failure db = None
       \<and> (case find_item db (locationID, GetAccountID location) of
             None \<Rightarrow> True
           | Some it \<Rightarrow> map_get it ''accountId'' \<noteq> Some (AVS (GetAccountID location)))"
proof (cases "Validate location")
  case (Some e)
  then show ?thesis by (simp add: Update_def)
next
  case None
  show ?thesis
  proof (cases "toLocationRecord location locationID")
    case (Inl e)
    with None show ?thesis by (simp add: Update_def)
  next
    case (Inr rec)
    obtain av where av: "attributevalue_MarshalMap rec = Inr av"
      by (simp add: attributevalue_MarshalMap_def)
    from toLocationRecord_keys [OF Inr] key_of_MarshalMap [OF av]
    have k: "key_of av = Some (locationID, GetAccountID location)" by simp
    show ?thesis
    proof (cases "db_Failure db")
      case (Some msg)
      with None Inr av show ?thesis
        by (simp add: Update_def NewDynamoDBRepository_def dynamodb_client_def ddb_PutItem_def
              unavailable_def)
    next
      case nf: None
      show ?thesis
      proof (cases "find_item db (locationID, GetAccountID location)")
        case fn: None
        with None Inr av k nf show ?thesis
          by (simp add: Update_def NewDynamoDBRepository_def dynamodb_client_def ddb_PutItem_def
                unavailable_def exists_condition)
      next
        case (Some it)
        from find_item_Some [OF Some] key_of_attrs
        have "map_get it ''PK'' \<noteq> None \<and> map_get it ''SK'' \<noteq> None" by blast
        with None Inr av k nf Some show ?thesis
          by (auto simp: Update_def NewDynamoDBRepository_def dynamodb_client_def ddb_PutItem_def
                unavailable_def exists_condition)
      qed
    qed
  qed
qed

lemma Delete_store:
  "Delete (NewDynamoDBRepository (dynamodb_client db) (db_TableName db) gsi) accountID locationID
      = Some ErrNotFoundOrAccessDenied
   \<longleftrightarrow> db_Failure db = None
       \<and> (case find_item db (locationID, accountID) of
             None \<Rightarrow> True
           | Some it \<Rightarrow> map_get it ''accountId'' \<noteq> Some (AVS accountID))"
proof (cases "db_Failure db")
  case (Some msg)
  then show ?thesis
    by (simp add: Delete_def NewDynamoDBRepository_def dynamodb_client_def ddb_DeleteItem_def
          unavailable_def)
next
  case nf: None
  show ?thesis
  proof (cases "find_item db (locationID, accountID)")
    case None
    with nf show ?thesis
      by (simp add: Delete_def NewDynamoDBRepository_def dynamodb_client_def ddb_DeleteItem_def
            unavailable_def exists_condition key_of_key)
  next
    case (Some it)
    from find_item_Some [OF Some] key_of_attrs
    have "map_get it ''PK'' \<noteq> None \<and> map_get it ''SK'' \<noteq> None" by blast
    with nf Some show ?thesis
      by (auto simp: Delete_def NewDynamoDBRepository_def dynamodb_client_def ddb_DeleteItem_def
            unavailable_def exists_condition key_of_key)
  qed
qed

lemma is_ConditionalCheckFailed_iff:
  "is_ConditionalCheckFailed e \<longleftrightarrow> (\<exists>msg. e = ConditionalCheckFailedException msg)"
  by (cases e) auto

lemma Update_other_failures:
  "Update r location locationID = Some ErrNotFoundOrAccessDenied \<Longrightarrow>
     \<exists>input msg. PutItem (client r) input = Inl (ConditionalCheckFailedException msg)"
  unfolding Update_def
  by (auto simp: is_ConditionalCheckFailed_iff split: option.splits sum.splits if_splits)

lemma Delete_other_failures:
  "Delete r accountID locationID = Some ErrNotFoundOrAccessDenied \<Longrightarrow>
     \<exists>input msg. DeleteItem (client r) input = Inl (ConditionalCheckFailedException msg)"
  unfolding Delete_def Let_def
  by (auto simp: is_ConditionalCheckFailed_iff split: option.splits sum.splits if_splits)

lemma example_facts:
  "Validate example_address = None"
  "toLocationRecord example_address ''loc-001''
     = Inr \<lparr>PK = ''loc-001'', SK = ''acc-12345'', rec_AccountID = ''acc-12345'',
           rec_LocationType = ''address'', rec_ExtendedAttributes = [],
           rec_Address = Some \<lparr>StreetAddress = ''123 Main St'', StreetAddress2 = [],
             City = ''Springfield'', StateProvince = [], PostalCode = ''12345'', Country = ''US''\<rparr>,
           rec_Coordinates = None\<rparr>"
  "GetAccountID example_address = ''acc-12345''"
  "find_item example_db (''loc-001'', ''acc-12345'') = None"
  "find_item example_db_stored (''loc-001'', ''acc-12345'') = Some example_item"
  "find_item example_db_foreign (''loc-001'', ''acc-12345'')
     = Some [(''PK'', AVS ''loc-001''), (''SK'', AVS ''acc-12345''), (''accountId'', AVS ''acc-99999''),
             (''locationType'', AVS ''address'')]"
  "db_Failure example_db = None" "db_Failure example_db_foreign = None"
  "db_Failure example_db_stored = None"
  "db_TableName example_db = ''locations''" "db_TableName example_db_foreign = ''locations''"
  "db_TableName example_db_stored = ''locations''"
  "db_IndexName example_db = ''accountId-index''" "db_IndexName example_db_stored = ''accountId-index''"
  by code_simp+

text \<open>
  Claim C2. Against the store, \<^verbatim>\<open>Update\<close> returns "location not found or access
  denied" exactly when the location is valid and convertible, the call reaches the store,
  and either no item exists under the key (locationId, accountId) or the
  \<^verbatim>\<open>accountId\<close> attribute of the stored item is not the account identifier of the
  incoming location; \<^verbatim>\<open>Delete\<close> returns it exactly when the call reaches the store
  and either no item exists under the key or its \<^verbatim>\<open>accountId\<close> attribute is not the
  caller's. Both cases give the one error value. With any client, the error is returned
  only when the client answers with a \<^verbatim>\<open>ConditionalCheckFailedException\<close>: no other
  failure of the store is mapped to it.
\<close>

theorem not_found_or_access_denied:
  "(Update (NewDynamoDBRepository (dynamodb_client db) (db_TableName db) gsi) location locationID
      = Some ErrNotFoundOrAccessDenied
    \<longleftrightarrow> Validate location = None \<and> (\<exists>rec. toLocationRecord location locationID = Inr rec)
       \<and> db_Failure db = None
       \<and> (case find_item db (locationID, GetAccountID location) of
             None \<Rightarrow> True
           | Some it \<Rightarrow> map_get it ''accountId'' \<noteq> Some (AVS (GetAccountID location))))
   \<and> (Delete (NewDynamoDBRepository (dynamodb_client db) (db_TableName db) gsi) accountID locationID
      = Some ErrNotFoundOrAccessDenied
    \<longleftrightarrow> db_Failure db = None
       \<and> (case find_item db (locationID, accountID) of
             None \<Rightarrow> True
           | Some it \<Rightarrow> map_get it ''accountId'' \<noteq> Some (AVS accountID)))
   \<and> (Update r location locationID = Some ErrNotFoundOrAccessDenied \<longrightarrow>
        (\<exists>input msg. PutItem (client r) input = Inl (ConditionalCheckFailedException msg)))
   \<and> (Delete r accountID locationID = Some ErrNotFoundOrAccessDenied \<longrightarrow>
        (\<exists>input msg. DeleteItem (client r) input = Inl (ConditionalCheckFailedException msg)))"
  using Update_store [of db gsi location locationID] Delete_store [of db gsi accountID locationID]
    Update_other_failures [of r location locationID] Delete_other_failures [of r accountID locationID]
  by blast


theorem not_found_or_access_denied_witness:
  "Update (example_repository example_db) example_address ''loc-001'' = Some ErrNotFoundOrAccessDenied
   \<and> Update (example_repository example_db_foreign) example_address ''loc-001''
       = Some ErrNotFoundOrAccessDenied
   \<and> Update (example_repository example_db_stored) example_address ''loc-001''
       \<noteq> Some ErrNotFoundOrAccessDenied
   \<and> Delete (example_repository example_db) ''acc-12345'' ''loc-001'' = Some ErrNotFoundOrAccessDenied
   \<and> Delete (example_repository example_db_foreign) ''acc-12345'' ''loc-001''
       = Some ErrNotFoundOrAccessDenied
   \<and> (\<exists>input msg. PutItem (client (example_repository example_db)) input
          = Inl (ConditionalCheckFailedException msg))
   \<and> (\<exists>input msg. DeleteItem (client (example_repository example_db)) input
          = Inl (ConditionalCheckFailedException msg))"
  using
    not_found_or_access_denied [of example_db "''accountId-index''" example_address "''loc-001''"
      "''acc-12345''" "example_repository example_db"]
    not_found_or_access_denied [of example_db_foreign "''accountId-index''" example_address "''loc-001''"
      "''acc-12345''" "example_repository example_db"]
    not_found_or_access_denied [of example_db_stored "''accountId-index''" example_address "''loc-001''"
      "''acc-12345''" "example_repository example_db"]
  by (simp add: example_facts example_repository_def example_item_def map_get.simps)

subsection \<open>Get and List\<close>









lemma encodeCursor_Some: "\<exists>s. encodeCursor (Some c) = Inr (Some s)"
  by (simp add: encodeCursor_def json_Marshal_paginationCursor_def)

lemma List_default_limit:
  assumes "case options of None \<Rightarrow> True | Some opts \<Rightarrow> Limit opts = None"
    and "ListStartKey options = Inr sk"
  shows "List (NewDynamoDBRepository c table gsi) accountID options =
     ListAnswer (Query c \<lparr>qry_TableName = table, qry_IndexName = gsi,
        qry_KeyConditionExpression = ''accountId = :accountId'',
        qry_ExpressionAttributeValues = go_map [('':accountId'', AVS accountID)],
        qry_Limit = 20, qry_ExclusiveStartKey = sk, qry_ScanIndexForward = True\<rparr>)"
  using assms
  by (auto simp: List_def ListLimit_def ListQueryInput_def NewDynamoDBRepository_def
        split: option.splits)

lemma List_next_cursor:
  assumes "ListStartKey options = Inr sk"
    and "Query (client r) (ListQueryInput r accountID (ListLimit r options) sk) = Inr result"
    and "convert_items (out_Items result) = Inr locations"
  shows "\<exists>res. List r accountID options = Inr res \<and> Locations res = locations
     \<and> ((NextCursor res \<noteq> None) = (out_LastEvaluatedKey result \<noteq> None))"
proof (cases "out_LastEvaluatedKey result")
  case None
  with assms show ?thesis by (simp add: List_def ListAnswer_def)
next
  case (Some lek)
  obtain s where "encodeCursor (lastEvaluatedKeyToCursor (Some lek)) = Inr (Some s)"
    using encodeCursor_Some by (auto simp: lastEvaluatedKeyToCursor_def)
  with Some assms show ?thesis by (simp add: List_def ListAnswer_def)
qed

lemma List_empty_account:
  assumes f: "db_Failure db = None"
    and none: "\<forall>it \<in> set (db_Items db). map_get it ''accountId'' \<noteq> Some (AVS accountID)"
    and lim: "case options of None \<Rightarrow> True
              | Some opts \<Rightarrow> (case Limit opts of None \<Rightarrow> True | Some l \<Rightarrow> 1 \<le> l)"
    and sk: "ListStartKey options = Inr sk"
  shows "List (NewDynamoDBRepository (dynamodb_client db) (db_TableName db) (db_IndexName db))
            accountID options = Inr \<lparr>Locations = [], NextCursor = None\<rparr>"
proof -
  let ?r = "NewDynamoDBRepository (dynamodb_client db) (db_TableName db) (db_IndexName db)"
  have l: "1 \<le> ListLimit ?r options"
    using lim by (auto simp: ListLimit_def NewDynamoDBRepository_def split: option.splits)
  have p: "filter (\<lambda>it. map_get it ''accountId'' = Some (AVS accountID)) (db_Items db) = []"
    using none by (simp add: filter_empty_conv)
  have a: "after_key sk [] = []"
    by (simp add: after_key_def split: option.splits)
  have q: "Query (client ?r) (ListQueryInput ?r accountID (ListLimit ?r options) sk)
      = Inr \<lparr>out_Items = [], out_LastEvaluatedKey = None\<rparr>"
    using f l
    by (simp add: NewDynamoDBRepository_def dynamodb_client_def ddb_Query_def ListQueryInput_def
          unavailable_def map_get_go_map p a Let_def)
  show ?thesis
    using sk q by (simp add: List_def ListAnswer_def)
qed

text \<open>
  Claim C3. When the caller supplies no limit, \<^verbatim>\<open>List\<close> of a repository built by
  \<^verbatim>\<open>NewDynamoDBRepository\<close> sends the query on the secondary index with limit 20 and
  returns what it makes of the answer. Whenever the query is answered and the items convert,
  \<^verbatim>\<open>List\<close> succeeds with those locations, and its next cursor is non-nil exactly when
  the answer carries a last evaluated key. Against the store, for an account without stored
  items (the call reaching the store, the limit absent or at least 1 as the store
  requires, the incoming cursor absent or decodable), \<^verbatim>\<open>List\<close> returns no error, an
  empty list of locations and a nil next cursor.
\<close>

theorem List_properties:
  "((case options of None \<Rightarrow> True | Some opts \<Rightarrow> Limit opts = None)
      \<and> ListStartKey options = Inr sk \<longrightarrow>
       List (NewDynamoDBRepository c table gsi) accountID options =
         ListAnswer (Query c \<lparr>qry_TableName = table, qry_IndexName = gsi,
            qry_KeyConditionExpression = ''accountId = :accountId'',
            qry_ExpressionAttributeValues = go_map [('':accountId'', AVS accountID)],
            qry_Limit = 20, qry_ExclusiveStartKey = sk, qry_ScanIndexForward = True\<rparr>))
   \<and> (ListStartKey options = Inr sk
      \<and> Query (client r) (ListQueryInput r accountID (ListLimit r options) sk) = Inr result
      \<and> convert_items (out_Items result) = Inr locations \<longrightarrow>
       (\<exists>res. List r accountID options = Inr res \<and> Locations res = locations
          \<and> ((NextCursor res \<noteq> None) = (out_LastEvaluatedKey result \<noteq> None))))
   \<and> (db_Failure db = None
      \<and> (\<forall>it \<in> set (db_Items db). map_get it ''accountId'' \<noteq> Some (AVS accountID))
      \<and> (case options of None \<Rightarrow> True
          | Some opts \<Rightarrow> (case Limit opts of None \<Rightarrow> True | Some l \<Rightarrow> 1 \<le> l))
      \<and> ListStartKey options = Inr sk \<longrightarrow>
       List (NewDynamoDBRepository (dynamodb_client db) (db_TableName db) (db_IndexName db))
          accountID options = Inr \<lparr>Locations = [], NextCursor = None\<rparr>)"
  using List_default_limit [of options sk c table gsi accountID]
    List_next_cursor [of options sk r accountID result locations]
    List_empty_account [of db accountID options sk]
  by blast


lemma example_list:
  "ListStartKey None = Inr None"
  "ListStartKey (Some \<lparr>Limit = Some 1, Cursor = None\<rparr>) = Inr None"
  "Query (client (example_repository example_db_stored))
      (ListQueryInput (example_repository example_db_stored) ''acc-12345''
         (ListLimit (example_repository example_db_stored) (Some \<lparr>Limit = Some 1, Cursor = None\<rparr>)) None)
     = Inr \<lparr>out_Items = [example_item],
            out_LastEvaluatedKey = Some [(''PK'', AVS ''loc-001''), (''SK'', AVS ''acc-12345''),
               (''accountId'', AVS ''acc-12345'')]\<rparr>"
  "convert_items [example_item] = Inr [example_address]"
  "list_all (\<lambda>it. map_get it ''accountId'' \<noteq> Some (AVS ''acc-00000'')) (db_Items example_db_stored)"
  by code_simp+

theorem List_properties_witness:
  "List (example_repository example_db_stored) ''acc-12345'' None =
     ListAnswer (Query (dynamodb_client example_db_stored)
        \<lparr>qry_TableName = ''locations'', qry_IndexName = ''accountId-index'',
         qry_KeyConditionExpression = ''accountId = :accountId'',
         qry_ExpressionAttributeValues = go_map [('':accountId'', AVS ''acc-12345'')],
         qry_Limit = 20, qry_ExclusiveStartKey = None, qry_ScanIndexForward = True\<rparr>)
   \<and> (\<exists>res. List (example_repository example_db_stored) ''acc-12345''
           (Some \<lparr>Limit = Some 1, Cursor = None\<rparr>) = Inr res
         \<and> Locations res = [example_address] \<and> NextCursor res \<noteq> None)
   \<and> List (example_repository example_db_stored) ''acc-00000'' None
       = Inr \<lparr>Locations = [], NextCursor = None\<rparr>"
proof -
  have 1: "List (example_repository example_db_stored) ''acc-12345'' None =
     ListAnswer (Query (dynamodb_client example_db_stored)
        \<lparr>qry_TableName = ''locations'', qry_IndexName = ''accountId-index'',
         qry_KeyConditionExpression = ''accountId = :accountId'',
         qry_ExpressionAttributeValues = go_map [('':accountId'', AVS ''acc-12345'')],
         qry_Limit = 20, qry_ExclusiveStartKey = None, qry_ScanIndexForward = True\<rparr>)"
    using List_properties [of None None "dynamodb_client example_db_stored" "''locations''"
        "''accountId-index''" "''acc-12345''"]
    by (simp add: example_list example_repository_def)
  have 2: "\<exists>res. List (example_repository example_db_stored) ''acc-12345''
           (Some \<lparr>Limit = Some 1, Cursor = None\<rparr>) = Inr res
         \<and> Locations res = [example_address] \<and> NextCursor res \<noteq> None"
    using List_properties [of "Some \<lparr>Limit = Some 1, Cursor = None\<rparr>" None _ _ _ "''acc-12345''"
        "example_repository example_db_stored"
        "\<lparr>out_Items = [example_item],
            out_LastEvaluatedKey = Some [(''PK'', AVS ''loc-001''), (''SK'', AVS ''acc-12345''),
               (''accountId'', AVS ''acc-12345'')]\<rparr>" "[example_address]",
        THEN conjunct2, THEN conjunct1]
      example_list(2) example_list(3) example_list(4)
    by (simp del: convert_items.simps)
  have 3: "List (example_repository example_db_stored) ''acc-00000'' None
       = Inr \<lparr>Locations = [], NextCursor = None\<rparr>"
    using List_properties [of None None _ _ _ "''acc-00000''" _ _ _ example_db_stored,
        THEN conjunct2, THEN conjunct2]
      example_list(5)
    by (simp add: example_list(1) example_facts example_repository_def list_all_iff)
  from 1 2 3 show ?thesis by blast
qed

subsection \<open>Coordinates.Validate\<close>

text \<open>
  Claim C9. \<^verbatim>\<open>Coordinates.Validate\<close> returns nil for every value whose latitude lies in
  \<open>[-90, 90]\<close>, whose longitude lies in \<open>[-180, 180]\<close> and whose accuracy is absent or
  not negative; the bounds themselves are accepted. Latitude 91 fails with the latitude
  error. Longitude -181 fails, with the longitude error when the latitude check passes;
  accuracy -1 fails, with the accuracy error when the two range checks pass (the checks
  run in this order and the first violation is the one reported).
\<close>

theorem Coordinates_Validate_bounds:
  "(\<forall>la lo. Latitude c = Finite la \<and> - 90 \<le> la \<and> la \<le> 90
       \<and> Longitude c = Finite lo \<and> - 180 \<le> lo \<and> lo \<le> 180
       \<and> (Accuracy c = None \<or> Accuracy c = Some PosInf \<or> (\<exists>a. Accuracy c = Some (Finite a) \<and> 0 \<le> a))
     \<longrightarrow> Coordinates_Validate c = None)
   \<and> (Latitude c = Finite 91 \<longrightarrow>
        Coordinates_Validate c = Some (ErrLatitudeRange (Finite 91)))
   \<and> (Longitude c = Finite (- 181) \<longrightarrow>
        Coordinates_Validate c \<noteq> None
        \<and> (\<not> f64_less (Latitude c) (Finite (- 90)) \<and> \<not> f64_less (Finite 90) (Latitude c)
             \<longrightarrow> Coordinates_Validate c = Some (ErrLongitudeRange (Finite (- 181)))))
   \<and> (Accuracy c = Some (Finite (- 1)) \<longrightarrow>
        Coordinates_Validate c \<noteq> None
        \<and> (\<not> f64_less (Latitude c) (Finite (- 90)) \<and> \<not> f64_less (Finite 90) (Latitude c)
           \<and> \<not> f64_less (Longitude c) (Finite (- 180)) \<and> \<not> f64_less (Finite 180) (Longitude c)
             \<longrightarrow> Coordinates_Validate c = Some (ErrAccuracyNegative (Finite (- 1)))))"
  by (auto simp: Coordinates_Validate_def)

theorem Coordinates_Validate_bounds_witness:
  "Coordinates_Validate \<lparr>Latitude = Finite 90, Longitude = Finite (- 180), Altitude = None,
      Accuracy = Some (Finite 0)\<rparr> = None
   \<and> Coordinates_Validate \<lparr>Latitude = Finite (- 90), Longitude = Finite 180, Altitude = None,
      Accuracy = None\<rparr> = None
   \<and> Coordinates_Validate \<lparr>Latitude = Finite 91, Longitude = Finite 0, Altitude = None,
      Accuracy = None\<rparr> = Some (ErrLatitudeRange (Finite 91))
   \<and> ErrorFormat (ErrLatitudeRange (Finite 91)) = ''latitude must be between -90 and 90, got %f''
   \<and> Coordinates_Validate \<lparr>Latitude = Finite 0, Longitude = Finite (- 181), Altitude = None,
      Accuracy = None\<rparr> = Some (ErrLongitudeRange (Finite (- 181)))
   \<and> Coordinates_Validate \<lparr>Latitude = Finite 0, Longitude = Finite 0, Altitude = None,
      Accuracy = Some (Finite (- 1))\<rparr> = Some (ErrAccuracyNegative (Finite (- 1)))"
  using Coordinates_Validate_bounds [of "\<lparr>Latitude = Finite 90, Longitude = Finite (- 180), Altitude = None,
      Accuracy = Some (Finite 0)\<rparr>"]
    Coordinates_Validate_bounds [of "\<lparr>Latitude = Finite (- 90), Longitude = Finite 180, Altitude = None,
      Accuracy = None\<rparr>"]
    Coordinates_Validate_bounds [of "\<lparr>Latitude = Finite 91, Longitude = Finite 0, Altitude = None,
      Accuracy = None\<rparr>"]
    Coordinates_Validate_bounds [of "\<lparr>Latitude = Finite 0, Longitude = Finite (- 181), Altitude = None,
      Accuracy = None\<rparr>"]
    Coordinates_Validate_bounds [of "\<lparr>Latitude = Finite 0, Longitude = Finite 0, Altitude = None,
      Accuracy = Some (Finite (- 1))\<rparr>"]
  by simp

subsection \<open>Absent coordinates\<close>

text \<open>
  Claim C10. There are coordinates payloads that leave latitude and longitude out (an empty
  \<^verbatim>\<open>coordinates\<close> object, or no \<^verbatim>\<open>coordinates\<close> member at all) which
  \<^verbatim>\<open>UnmarshalLocation\<close> decodes without error, with latitude and longitude 0, to the
  very location it decodes from the payload that spells out the point (0, 0); and
  \<^verbatim>\<open>Validate\<close> accepts that location.
\<close>

theorem absent_latitude_longitude_is_origin:
  "UnmarshalLocation (Text (JObj [(''accountId'', JStr ''acc-1''), (''locationType'', JStr ''coordinates''),
       (''coordinates'', JObj [])]))
     = Inr (IsCoordinatesLocation
         \<lparr>CoordinatesBase = \<lparr>AccountID = ''acc-1'', LocationType = ''coordinates'', ExtendedAttributes = []\<rparr>,
          CoordinatesOf = \<lparr>Latitude = Finite 0, Longitude = Finite 0, Altitude = None, Accuracy = None\<rparr>\<rparr>)
   \<and> UnmarshalLocation (Text (JObj [(''accountId'', JStr ''acc-1''), (''locationType'', JStr ''coordinates'')]))
     = Inr (IsCoordinatesLocation
         \<lparr>CoordinatesBase = \<lparr>AccountID = ''acc-1'', LocationType = ''coordinates'', ExtendedAttributes = []\<rparr>,
          CoordinatesOf = \<lparr>Latitude = Finite 0, Longitude = Finite 0, Altitude = None, Accuracy = None\<rparr>\<rparr>)
   \<and> UnmarshalLocation (Text (JObj [(''accountId'', JStr ''acc-1''), (''locationType'', JStr ''coordinates''),
       (''coordinates'', JObj [(''latitude'', JNum 0), (''longitude'', JNum 0)])]))
     = Inr (IsCoordinatesLocation
         \<lparr>CoordinatesBase = \<lparr>AccountID = ''acc-1'', LocationType = ''coordinates'', ExtendedAttributes = []\<rparr>,
          CoordinatesOf = \<lparr>Latitude = Finite 0, Longitude = Finite 0, Altitude = None, Accuracy = None\<rparr>\<rparr>)
   \<and> Validate (IsCoordinatesLocation
         \<lparr>CoordinatesBase = \<lparr>AccountID = ''acc-1'', LocationType = ''coordinates'', ExtendedAttributes = []\<rparr>,
          CoordinatesOf = \<lparr>Latitude = Finite 0, Longitude = Finite 0, Altitude = None, Accuracy = None\<rparr>\<rparr>)
     = None"
  by code_simp

subsection \<open>The answer to getLocation\<close>











end
